theory Spec2Isabelle
  imports Complex_Main
begin

section \<open>Data model of the task-flow graph\<close>

text \<open>
  Coordinates are JavaScript numbers; they are modelled as reals (no NaN, no rounding).
  A task carries the three fields the flow display reads: \<open>id\<close>, the optional
  \<open>position\<close> and the optional \<open>nextTaskIds\<close>.
\<close>

record point =
  p_x :: real
  p_y :: real

record ProjectTask =
  task_id :: string
  position :: "point option"
  nextTaskIds :: "string list option"

record ConnectorInfo =
  conn_id :: string
  from_pt :: point
  to_pt :: point
  sourceId :: string
  targetId :: string

record ConnectingState =
  fromId :: string
  fromPos :: point

text \<open>
  The rendered surface: \<open>getBoundingClientRect\<close> and the offset/scroll
  properties of the elements the component measures. A card ref is a key of
  \<open>taskCardRefs\<close> whose \<open>current\<close> may be null.
\<close>

record card_element =
  rect_width :: real
  rect_height :: real
  offsetWidth :: real
  offsetHeight :: real

record container_element =
  rect_left :: real
  rect_top :: real
  scrollLeft :: real
  scrollTop :: real
  scrollWidth :: real
  scrollHeight :: real

record surface =
  flowContainerRef :: "container_element option"
  taskCardRefs :: "(string \<times> card_element option) list"

record pointer_event =
  clientX :: real
  clientY :: real

text \<open>The component state the gesture handlers read and write.\<close>

record flow_state =
  userRole :: string
  connectingState :: "ConnectingState option"
  mousePos :: point
  draggedTaskId :: "string option"
  dragOffset :: point

text \<open>
  What a handler does beyond its own state: calls of the props
  \<open>onUpdateTaskConnections\<close> and \<open>onUpdateTaskPosition\<close>, a scheduled
  \<open>calculateConnectors\<close> (with its delay), and the calls on the browser event.
\<close>

datatype effect =
    OnUpdateTaskConnections string "string list"
  | OnUpdateTaskPosition string point
  | SetTimeoutCalculateConnectors nat
  | PreventDefault
  | SetEffectAllowedMove
  | SetDropEffectMove

section \<open>JavaScript helpers\<close>

text \<open>\<open>Array.from(new Set(xs))\<close>: a Set keeps the first insertion of each value, in order.\<close>

fun set_add_all :: "'a list \<Rightarrow> 'a list \<Rightarrow> 'a list" where
  "set_add_all seen [] = seen"
| "set_add_all seen (v # vs) = set_add_all (if v \<in> set seen then seen else seen @ [v]) vs"

definition array_from_set :: "'a list \<Rightarrow> 'a list" where
  "array_from_set xs = set_add_all [] xs"

text \<open>\<open>task.nextTaskIds || []\<close>\<close>

definition next_ids :: "ProjectTask \<Rightarrow> string list" where
  "next_ids t = (case nextTaskIds t of None \<Rightarrow> [] | Some ids \<Rightarrow> ids)"

text \<open>\<open>v || d\<close> on a number: 0 is falsy.\<close>

definition num_or :: "real \<Rightarrow> real \<Rightarrow> real" where
  "num_or v d = (if v = 0 then d else v)"

text \<open>\<open>task.position?.x || 0\<close> and \<open>task.position?.y || 0\<close>\<close>

definition position_x :: "ProjectTask \<Rightarrow> real" where
  "position_x t = (case position t of None \<Rightarrow> 0 | Some p \<Rightarrow> num_or (p_x p) 0)"

definition position_y :: "ProjectTask \<Rightarrow> real" where
  "position_y t = (case position t of None \<Rightarrow> 0 | Some p \<Rightarrow> num_or (p_y p) 0)"

text \<open>\<open>tasks.find(t => t.id === i)\<close>\<close>

definition find_task :: "ProjectTask list \<Rightarrow> string \<Rightarrow> ProjectTask option" where
  "find_task tasks i = find (\<lambda>t. task_id t = i) tasks"

text \<open>\<open>taskCardRefs.get(i)?.current\<close>\<close>

definition cardElement :: "surface \<Rightarrow> string \<Rightarrow> card_element option" where
  "cardElement d i = (case map_of (taskCardRefs d) i of None \<Rightarrow> None | Some r \<Rightarrow> r)"

section \<open>Permissions\<close>

definition canEdit :: "flow_state \<Rightarrow> bool" where
  "canEdit st = (userRole st = ''owner'' \<or> userRole st = ''admin'' \<or> userRole st = ''editor'')"

definition canManage :: "flow_state \<Rightarrow> bool" where
  "canManage st = (userRole st = ''owner'' \<or> userRole st = ''admin'')"

section \<open>Connect and delete-edge gestures\<close>

definition handleStartConnection ::
  "surface \<Rightarrow> flow_state \<Rightarrow> string \<Rightarrow> pointer_event \<Rightarrow> flow_state \<times> effect list" where
  "handleStartConnection d st taskId ev =
     (if \<not> canEdit st then (st, [])
      else case flowContainerRef d of
        None \<Rightarrow> (st, [])
      | Some c \<Rightarrow>
          (st\<lparr>connectingState := Some \<lparr>fromId = taskId,
                 fromPos = \<lparr>p_x = clientX ev - rect_left c + scrollLeft c,
                            p_y = clientY ev - rect_top c + scrollTop c\<rparr>\<rparr>\<rparr>, []))"

definition handleEndConnection ::
  "ProjectTask list \<Rightarrow> flow_state \<Rightarrow> string \<Rightarrow> flow_state \<times> effect list" where
  "handleEndConnection tasks st targetTaskId =
     (if \<not> canEdit st then (st, [])
      else case connectingState st of
        None \<Rightarrow> (st\<lparr>connectingState := None\<rparr>, [])
      | Some cs \<Rightarrow>
          if fromId cs = targetTaskId then (st\<lparr>connectingState := None\<rparr>, [])
          else (case find_task tasks (fromId cs) of
                  None \<Rightarrow> (st\<lparr>connectingState := None\<rparr>, [])
                | Some sourceTask \<Rightarrow>
                    (st\<lparr>connectingState := None\<rparr>,
                     [OnUpdateTaskConnections (task_id sourceTask)
                        (array_from_set (next_ids sourceTask @ [targetTaskId]))])))"

definition handleDeleteConnection ::
  "ProjectTask list \<Rightarrow> flow_state \<Rightarrow> string \<Rightarrow> string \<Rightarrow> flow_state \<times> effect list" where
  "handleDeleteConnection tasks st sourceTaskId targetTaskId =
     (if \<not> canEdit st then (st, [])
      else case find_task tasks sourceTaskId of
        None \<Rightarrow> (st, [])
      | Some sourceTask \<Rightarrow>
          (st, [OnUpdateTaskConnections (task_id sourceTask)
                  (filter (\<lambda>i. i \<noteq> targetTaskId) (next_ids sourceTask))]))"

definition handleMouseMove ::
  "surface \<Rightarrow> flow_state \<Rightarrow> pointer_event \<Rightarrow> flow_state \<times> effect list" where
  "handleMouseMove d st ev =
     (case connectingState st of
        None \<Rightarrow> (st, [])
      | Some cs \<Rightarrow>
          (case flowContainerRef d of
             None \<Rightarrow> (st, [])
           | Some c \<Rightarrow>
               (st\<lparr>mousePos := \<lparr>p_x = clientX ev - rect_left c + scrollLeft c,
                                 p_y = clientY ev - rect_top c + scrollTop c\<rparr>\<rparr>, [])))"

definition handleMouseUp :: "flow_state \<Rightarrow> flow_state \<times> effect list" where
  "handleMouseUp st =
     (case connectingState st of
        None \<Rightarrow> (st, [])
      | Some cs \<Rightarrow> (st\<lparr>connectingState := None\<rparr>, []))"

section \<open>Graph Store\<close>

text \<open>
  Modelled from the spec: the owner of the task list, which receives the calls of
  \<open>onUpdateTaskConnections\<close> and \<open>onUpdateTaskPosition\<close>, is not among the
  source files. The spec gives \<open>setNodeConnections(sourceId, targetIds)\<close> as a bulk
  replace of the source node's \<open>nextTaskIds\<close> and
  \<open>updateNodePosition(id, pos)\<close> as the store of a node's position; both leave
  every other node as it is.
\<close>

definition setNodeConnections :: "string \<Rightarrow> string list \<Rightarrow> ProjectTask list \<Rightarrow> ProjectTask list" where
  "setNodeConnections sourceTaskId ids tasks =
     map (\<lambda>t. if task_id t = sourceTaskId then t\<lparr>nextTaskIds := Some ids\<rparr> else t) tasks"

definition updateNodePosition :: "string \<Rightarrow> point \<Rightarrow> ProjectTask list \<Rightarrow> ProjectTask list" where
  "updateNodePosition taskId pos tasks =
     map (\<lambda>t. if task_id t = taskId then t\<lparr>position := Some pos\<rparr> else t) tasks"

fun commit :: "effect \<Rightarrow> ProjectTask list \<Rightarrow> ProjectTask list" where
  "commit (OnUpdateTaskConnections s ids) tasks = setNodeConnections s ids tasks"
| "commit (OnUpdateTaskPosition i pos) tasks = updateNodePosition i pos tasks"
| "commit (SetTimeoutCalculateConnectors n) tasks = tasks"
| "commit PreventDefault tasks = tasks"
| "commit SetEffectAllowedMove tasks = tasks"
| "commit SetDropEffectMove tasks = tasks"

fun commit_all :: "effect list \<Rightarrow> ProjectTask list \<Rightarrow> ProjectTask list" where
  "commit_all [] tasks = tasks"
| "commit_all (e # es) tasks = commit_all es (commit e tasks)"

text \<open>The edges of the graph: the pairs \<open>(source id, target id)\<close>, in order.\<close>

definition edges :: "ProjectTask list \<Rightarrow> (string \<times> string) list" where
  "edges tasks = concat (map (\<lambda>s. map (\<lambda>t. (task_id s, t)) (next_ids s)) tasks)"

text \<open>
  \<open>connect(a, b)\<close> as the user performs it: a connect gesture started on node \<open>a\<close>
  and ended on node \<open>b\<close>, with the handlers' calls committed to the store.
\<close>

definition connect ::
  "surface \<Rightarrow> pointer_event \<Rightarrow> string \<Rightarrow> string \<Rightarrow> ProjectTask list \<times> flow_state
     \<Rightarrow> ProjectTask list \<times> flow_state" where
  "connect d ev a b g =
     (case handleStartConnection d (snd g) a ev of
        (st1, es1) \<Rightarrow>
          (case handleEndConnection (commit_all es1 (fst g)) st1 b of
             (st2, es2) \<Rightarrow> (commit_all es2 (commit_all es1 (fst g)), st2)))"

text \<open>\<open>disconnect(s, t)\<close>: the delete-edge gesture with its call committed.\<close>

definition disconnect ::
  "string \<Rightarrow> string \<Rightarrow> ProjectTask list \<times> flow_state \<Rightarrow> ProjectTask list \<times> flow_state" where
  "disconnect s t g =
     (case handleDeleteConnection (fst g) (snd g) s t of
        (st1, es1) \<Rightarrow> (commit_all es1 (fst g), st1))"

text \<open>The store after a committed connect of \<open>a\<close> to \<open>b\<close>.\<close>

definition add_edge :: "string \<Rightarrow> string \<Rightarrow> ProjectTask list \<Rightarrow> ProjectTask list" where
  "add_edge a b tasks =
     (case find_task tasks a of
        None \<Rightarrow> tasks
      | Some src \<Rightarrow> setNodeConnections a (array_from_set (next_ids src @ [b])) tasks)"

section \<open>Move gesture\<close>

text \<open>\<open>task?.position?.x || 0\<close> on the result of \<open>find\<close>\<close>

definition found_position_x :: "ProjectTask option \<Rightarrow> real" where
  "found_position_x ft = (case ft of None \<Rightarrow> 0 | Some t \<Rightarrow> position_x t)"

definition found_position_y :: "ProjectTask option \<Rightarrow> real" where
  "found_position_y ft = (case ft of None \<Rightarrow> 0 | Some t \<Rightarrow> position_y t)"

definition handleDragCardStart ::
  "surface \<Rightarrow> ProjectTask list \<Rightarrow> flow_state \<Rightarrow> pointer_event \<Rightarrow> string
     \<Rightarrow> flow_state \<times> effect list" where
  "handleDragCardStart d tasks st ev taskId =
     (if \<not> canEdit st then (st, [])
      else case flowContainerRef d of
        None \<Rightarrow> (st\<lparr>draggedTaskId := Some taskId\<rparr>, [SetEffectAllowedMove])
      | Some c \<Rightarrow>
          (st\<lparr>draggedTaskId := Some taskId,
              dragOffset :=
                \<lparr>p_x = clientX ev - rect_left c - found_position_x (find_task tasks taskId),
                 p_y = clientY ev - rect_top c - found_position_y (find_task tasks taskId)\<rparr>\<rparr>,
           [SetEffectAllowedMove]))"

definition handleDragOver :: "flow_state \<Rightarrow> flow_state \<times> effect list" where
  "handleDragOver st =
     (if \<not> canEdit st then (st, []) else (st, [PreventDefault, SetDropEffectMove]))"

text \<open>\<open>draggedCardElement?.offsetWidth || 380\<close> and \<open>draggedCardElement?.offsetHeight || 280\<close>\<close>

definition cardWidth :: "surface \<Rightarrow> string \<Rightarrow> real" where
  "cardWidth d i = (case cardElement d i of None \<Rightarrow> 380 | Some el \<Rightarrow> num_or (offsetWidth el) 380)"

definition cardHeight :: "surface \<Rightarrow> string \<Rightarrow> real" where
  "cardHeight d i = (case cardElement d i of None \<Rightarrow> 280 | Some el \<Rightarrow> num_or (offsetHeight el) 280)"

text \<open>The position \<open>handleDrop\<close> commits for the dragged task \<open>i\<close>.\<close>

definition dropPosition ::
  "surface \<Rightarrow> container_element \<Rightarrow> flow_state \<Rightarrow> pointer_event \<Rightarrow> string \<Rightarrow> point" where
  "dropPosition d c st ev i =
     \<lparr>p_x = max 0 (min (clientX ev - rect_left c - p_x (dragOffset st))
                        (scrollWidth c - cardWidth d i)),
      p_y = max 0 (min (clientY ev - rect_top c - p_y (dragOffset st))
                        (scrollHeight c - cardHeight d i))\<rparr>"

text \<open>
  \<open>!draggedTaskIdRef.current\<close> holds for null and for the empty string.
\<close>

definition handleDrop ::
  "surface \<Rightarrow> flow_state \<Rightarrow> pointer_event \<Rightarrow> flow_state \<times> effect list" where
  "handleDrop d st ev =
     (if \<not> canEdit st then (st, [])
      else case draggedTaskId st of
        None \<Rightarrow> (st, [PreventDefault])
      | Some i \<Rightarrow>
          if i = [] then (st, [PreventDefault])
          else (case flowContainerRef d of
                  None \<Rightarrow> (st, [PreventDefault])
                | Some c \<Rightarrow>
                    (st\<lparr>draggedTaskId := None\<rparr>,
                     [PreventDefault,
                      OnUpdateTaskPosition i (dropPosition d c st ev i),
                      SetTimeoutCalculateConnectors 0])))"

section \<open>Geometry engine\<close>

definition target_connector ::
  "surface \<Rightarrow> ProjectTask list \<Rightarrow> ProjectTask \<Rightarrow> point \<Rightarrow> string \<Rightarrow> ConnectorInfo list" where
  "target_connector d tasks sourceTask sourcePos tid =
     (case find_task tasks tid of
        None \<Rightarrow> []
      | Some targetTask \<Rightarrow>
          (case cardElement d tid of
             None \<Rightarrow> []
           | Some targetCard \<Rightarrow>
               [\<lparr>conn_id = ''conn-'' @ task_id sourceTask @ ''-'' @ tid,
                 from_pt = sourcePos,
                 to_pt = \<lparr>p_x = position_x targetTask,
                          p_y = position_y targetTask + rect_height targetCard / 2\<rparr>,
                 sourceId = task_id sourceTask,
                 targetId = tid\<rparr>]))"

definition source_connectors ::
  "surface \<Rightarrow> ProjectTask list \<Rightarrow> ProjectTask \<Rightarrow> ConnectorInfo list" where
  "source_connectors d tasks sourceTask =
     (case nextTaskIds sourceTask of
        None \<Rightarrow> []
      | Some ids \<Rightarrow>
          if ids = [] then []
          else (case cardElement d (task_id sourceTask) of
                  None \<Rightarrow> []
                | Some sourceCard \<Rightarrow>
                    concat (map (target_connector d tasks sourceTask
                                   \<lparr>p_x = position_x sourceTask + rect_width sourceCard,
                                    p_y = position_y sourceTask + rect_height sourceCard / 2\<rparr>)
                                ids)))"

definition calculateConnectors :: "surface \<Rightarrow> ProjectTask list \<Rightarrow> ConnectorInfo list" where
  "calculateConnectors d tasks =
     (if flowContainerRef d = None \<or> taskCardRefs d = [] then []
      else concat (map (source_connectors d tasks) tasks))"

text \<open>A node is measurable when its card ref holds a mounted element.\<close>

definition measurable :: "surface \<Rightarrow> string \<Rightarrow> bool" where
  "measurable d i = (cardElement d i \<noteq> None)"

text \<open>
  The cards are rendered inside the flow container: while the container is not mounted,
  no card ref holds an element.
\<close>

definition rendered :: "surface \<Rightarrow> bool" where
  "rendered d = (flowContainerRef d \<noteq> None \<or> list_all (\<lambda>kr. snd kr = None) (taskCardRefs d))"

text \<open>The position of a node in the spec's words: \<open>{0,0}\<close> when unset.\<close>

definition spec_position :: "ProjectTask \<Rightarrow> point" where
  "spec_position t = (case position t of None \<Rightarrow> \<lparr>p_x = 0, p_y = 0\<rparr> | Some p \<Rightarrow> p)"

text \<open>The connectors of the list that join source id \<open>s\<close> to target id \<open>t\<close>.\<close>

definition connectors_for :: "ConnectorInfo list \<Rightarrow> string \<Rightarrow> string \<Rightarrow> ConnectorInfo list" where
  "connectors_for cs s t = filter (\<lambda>c. sourceId c = s \<and> targetId c = t) cs"

section \<open>Collaboration sync\<close>

text \<open>
  What the callbacks of the collaboration layer can do: reload the page, or fetch the
  member list and the invitation list of a project.
\<close>

datatype app_effect =
    WindowLocationReload
  | GetProjectMembers string
  | GetProjectInvitations string

text \<open>
  A change notification: the payload has \<open>schema\<close>, \<open>table\<close> and
  \<open>eventType\<close>, and the changed row, here its columns as text.
\<close>

record postgres_change =
  change_schema :: string
  change_table :: string
  eventType :: string
  change_row :: "(string \<times> string) list"

text \<open>
  One \<open>.on('postgres_changes', {event, schema, table, filter}, callback)\<close> of a channel;
  the filter \<open>column=eq.value\<close> is kept as the pair of its column and value.
\<close>

record listener =
  l_event :: string
  l_schema :: string
  l_table :: string
  l_filter :: "string \<times> string"
  l_callback :: "postgres_change \<Rightarrow> app_effect list"

record channel =
  channel_name :: string
  listeners :: "listener list"

definition subscribeToProjectUpdates ::
  "string \<Rightarrow> (postgres_change \<Rightarrow> app_effect list) \<Rightarrow> channel" where
  "subscribeToProjectUpdates projectId onUpdate =
     \<lparr>channel_name = ''project-'' @ projectId,
      listeners =
        [\<lparr>l_event = ''*'', l_schema = ''public'', l_table = ''projects'',
          l_filter = (''id'', projectId), l_callback = onUpdate\<rparr>,
         \<lparr>l_event = ''*'', l_schema = ''public'', l_table = ''project_members'',
          l_filter = (''project_id'', projectId), l_callback = onUpdate\<rparr>]\<rparr>"

text \<open>The callback the flow display passes to \<open>subscribeToProjectUpdates\<close>.\<close>

definition onProjectUpdate :: "postgres_change \<Rightarrow> app_effect list" where
  "onProjectUpdate payload =
     (if change_table payload = ''projects'' \<and> eventType payload = ''UPDATE''
      then [WindowLocationReload] else [])"

text \<open>
  The notification service delivers a change to every listener of the channel whose
  event, schema, table and row filter match it.
\<close>

definition listener_matches :: "listener \<Rightarrow> postgres_change \<Rightarrow> bool" where
  "listener_matches l c =
     ((l_event l = ''*'' \<or> l_event l = eventType c) \<and>
      l_schema l = change_schema c \<and>
      l_table l = change_table c \<and>
      map_of (change_row c) (fst (l_filter l)) = Some (snd (l_filter l)))"

definition delivered_to :: "channel \<Rightarrow> postgres_change \<Rightarrow> listener list" where
  "delivered_to ch c = filter (\<lambda>l. listener_matches l c) (listeners ch)"

definition deliver :: "channel \<Rightarrow> postgres_change \<Rightarrow> app_effect list" where
  "deliver ch c = concat (map (\<lambda>l. l_callback l c) (delivered_to ch c))"

text \<open>\<open>loadData\<close> of the members dialog: the fetch of membership and invitation data.\<close>

definition loadData :: "string \<Rightarrow> bool \<Rightarrow> app_effect list" where
  "loadData projectId canManageMembers =
     GetProjectMembers projectId #
     (if canManageMembers then [GetProjectInvitations projectId] else [])"

section \<open>Persistence and role services\<close>

text \<open>
  A value read from a JSON column, as JavaScript sees it. \<open>truthy\<close> is the test
  that \<open>||\<close> applies to its left operand.
\<close>

datatype json =
    JNull
  | JUndefined
  | JBool bool
  | JNum real
  | JStr string
  | JArr "json list"
  | JObj "(string \<times> json) list"

fun truthy :: "json \<Rightarrow> bool" where
  "truthy JNull = False"
| "truthy JUndefined = False"
| "truthy (JBool b) = b"
| "truthy (JNum n) = (n \<noteq> 0)"
| "truthy (JStr s) = (s \<noteq> [])"
| "truthy (JArr xs) = True"
| "truthy (JObj kvs) = True"

definition js_or :: "json \<Rightarrow> json \<Rightarrow> json" where
  "js_or a b = (if truthy a then a else b)"

fun is_array :: "json \<Rightarrow> bool" where
  "is_array (JArr xs) = True"
| "is_array v = False"

text \<open>The error object of a failed request, and the errors the services throw.\<close>

record pg_error =
  error_code :: string
  error_message :: string

datatype service_error =
    ProjectFetchFailed string
  | ProjectCreateFailed string
  | ProjectUpdateFailed string
  | LoginRequired

text \<open>A row of \<open>projects\<close> selected with the roles of its \<open>project_members\<close>.\<close>

record project_row =
  row_id :: string
  row_title :: string
  row_goal :: string
  target_date :: string
  tasks_data :: json
  gantt_data :: json
  created_at :: string
  updated_at :: string
  owner_id :: string
  is_public :: bool
  last_modified_by :: "string option"
  project_members :: "string list"

record ProjectData =
  pd_id :: string
  pd_title :: string
  pd_goal :: string
  targetDate :: string
  pd_tasks :: json
  ganttData :: json
  createdAt :: string
  updatedAt :: string
  ownerId :: string
  isPublic :: bool
  lastModifiedBy :: "string option"
  pd_userRole :: "string option"

text \<open>
  The object literal that \<open>getProjects\<close>, \<open>createProject\<close>, \<open>updateProject\<close>
  and \<open>getProject\<close> each build from a row; they differ in \<open>userRole\<close> only.
\<close>

definition project_of_row :: "project_row \<Rightarrow> string option \<Rightarrow> ProjectData" where
  "project_of_row r role =
     \<lparr>pd_id = row_id r,
      pd_title = row_title r,
      pd_goal = row_goal r,
      targetDate = target_date r,
      pd_tasks = js_or (tasks_data r) (JArr []),
      ganttData = gantt_data r,
      createdAt = created_at r,
      updatedAt = updated_at r,
      ownerId = owner_id r,
      isPublic = is_public r,
      lastModifiedBy = last_modified_by r,
      pd_userRole = role\<rparr>"

text \<open>\<open>row.project_members[0]?.role\<close>\<close>

definition first_role :: "project_row \<Rightarrow> string option" where
  "first_role r = (case project_members r of [] \<Rightarrow> None | m # ms \<Rightarrow> Some m)"

text \<open>
  Each service function is given the response of its request: \<open>Inl\<close> the error object,
  \<open>Inr\<close> the data.
\<close>

definition getProjects :: "pg_error + project_row list \<Rightarrow> service_error + ProjectData list" where
  "getProjects response =
     (case response of
        Inl e \<Rightarrow> Inl (ProjectFetchFailed (error_message e))
      | Inr rows \<Rightarrow> Inr (map (\<lambda>r. project_of_row r (first_role r)) rows))"

definition createProject ::
  "string option \<Rightarrow> pg_error + project_row \<Rightarrow> service_error + ProjectData" where
  "createProject user response =
     (case user of
        None \<Rightarrow> Inl LoginRequired
      | Some u \<Rightarrow>
          (case response of
             Inl e \<Rightarrow> Inl (ProjectCreateFailed (error_message e))
           | Inr r \<Rightarrow> Inr (project_of_row r (Some ''owner''))))"

definition updateProject :: "pg_error + project_row \<Rightarrow> service_error + ProjectData" where
  "updateProject response =
     (case response of
        Inl e \<Rightarrow> Inl (ProjectUpdateFailed (error_message e))
      | Inr r \<Rightarrow> Inr (project_of_row r (first_role r)))"

definition getProject :: "pg_error + project_row \<Rightarrow> service_error + ProjectData" where
  "getProject response =
     (case response of
        Inl e \<Rightarrow> Inl (ProjectFetchFailed (error_message e))
      | Inr r \<Rightarrow> Inr (project_of_row r (first_role r)))"

text \<open>
  The membership table and the request \<open>getUserRole\<close> sends:
  \<open>select('role').eq('project_id', p).eq('user_id', u).single()\<close>, which answers with
  an error unless exactly one row matches, or when the request itself fails. Both
  \<open>auth.getUser()\<close> and the request resolve to a result object: a failure is the
  \<open>error\<close> field of the result (no user, for \<open>getUser\<close>), not a rejection.
\<close>

record member_row =
  member_project_id :: string
  member_user_id :: string
  member_role :: string

record backend =
  auth_user :: "string option"
  request_failure :: "pg_error option"
  project_members_table :: "member_row list"

definition single :: "'a list \<Rightarrow> pg_error + 'a" where
  "single rows =
     (case rows of
        [r] \<Rightarrow> Inr r
      | _ \<Rightarrow> Inl \<lparr>error_code = ''PGRST116'', error_message = ''not a single row''\<rparr>)"

definition select_member :: "backend \<Rightarrow> string \<Rightarrow> string \<Rightarrow> pg_error + member_row" where
  "select_member b projectId userId =
     (case request_failure b of
        Some e \<Rightarrow> Inl e
      | None \<Rightarrow>
          single (filter (\<lambda>m. member_project_id m = projectId \<and> member_user_id m = userId)
                         (project_members_table b)))"

definition getUserRole :: "backend \<Rightarrow> string \<Rightarrow> service_error + string option" where
  "getUserRole b projectId =
     (case auth_user b of
        None \<Rightarrow> Inr None
      | Some u \<Rightarrow>
          (case select_member b projectId u of
             Inl e \<Rightarrow> Inr None
           | Inr m \<Rightarrow> Inr (Some (member_role m))))"

section \<open>Scenario values\<close>

text \<open>The graph of the scenarios: \<open>A\<close> at (0,0), \<open>B\<close> at (500,0), and the edge \<open>A->B\<close>.\<close>

definition node_A :: ProjectTask where
  "node_A = \<lparr>task_id = ''A'', position = Some \<lparr>p_x = 0, p_y = 0\<rparr>, nextTaskIds = Some []\<rparr>"

definition node_B :: ProjectTask where
  "node_B = \<lparr>task_id = ''B'', position = Some \<lparr>p_x = 500, p_y = 0\<rparr>, nextTaskIds = Some []\<rparr>"

definition graph_AB :: "ProjectTask list" where
  "graph_AB = [node_A, node_B]"

definition graph_A_to_B :: "ProjectTask list" where
  "graph_A_to_B = [node_A\<lparr>nextTaskIds := Some [''B'']\<rparr>, node_B]"

definition card_380_280 :: card_element where
  "card_380_280 = \<lparr>rect_width = 380, rect_height = 280, offsetWidth = 380, offsetHeight = 280\<rparr>"

definition canvas :: container_element where
  "canvas = \<lparr>rect_left = 16, rect_top = 120, scrollLeft = 0, scrollTop = 0,
             scrollWidth = 1232, scrollHeight = 832\<rparr>"

definition surface_AB :: surface where
  "surface_AB = \<lparr>flowContainerRef = Some canvas,
                 taskCardRefs = [(''A'', Some card_380_280), (''B'', Some card_380_280)]\<rparr>"

definition surface_B_unmounted :: surface where
  "surface_B_unmounted = \<lparr>flowContainerRef = Some canvas,
                          taskCardRefs = [(''A'', Some card_380_280), (''B'', None)]\<rparr>"

definition origin :: point where
  "origin = \<lparr>p_x = 0, p_y = 0\<rparr>"

definition idle :: "string \<Rightarrow> flow_state" where
  "idle role = \<lparr>userRole = role, connectingState = None, mousePos = origin,
                draggedTaskId = None, dragOffset = origin\<rparr>"

definition connecting_from :: "string \<Rightarrow> string \<Rightarrow> flow_state" where
  "connecting_from role a =
     (idle role)\<lparr>connectingState := Some \<lparr>fromId = a, fromPos = origin\<rparr>\<rparr>"

definition pointer_at :: "real \<Rightarrow> real \<Rightarrow> pointer_event" where
  "pointer_at px py = \<lparr>clientX = px, clientY = py\<rparr>"

definition member_insert :: postgres_change where
  "member_insert = \<lparr>change_schema = ''public'', change_table = ''project_members'',
                    eventType = ''INSERT'',
                    change_row = [(''project_id'', ''p1''), (''user_id'', ''u2''),
                                  (''role'', ''editor'')]\<rparr>"

definition invitation_insert :: postgres_change where
  "invitation_insert = \<lparr>change_schema = ''public'', change_table = ''project_invitations'',
                        eventType = ''INSERT'',
                        change_row = [(''project_id'', ''p1''), (''email'', ''u3@example.org''),
                                      (''role'', ''viewer'')]\<rparr>"

definition project_update :: postgres_change where
  "project_update = \<lparr>change_schema = ''public'', change_table = ''projects'',
                     eventType = ''UPDATE'',
                     change_row = [(''id'', ''p1''), (''title'', ''Plan'')]\<rparr>"

definition row_without_tasks :: project_row where
  "row_without_tasks =
     \<lparr>row_id = ''p1'', row_title = ''Plan'', row_goal = ''Ship'', target_date = ''2025-12-31'',
      tasks_data = JNull, gantt_data = JNull, created_at = ''2025-07-07'',
      updated_at = ''2025-07-08'', owner_id = ''u1'', is_public = False,
      last_modified_by = None, project_members = [''owner'']\<rparr>"

definition task_json_A :: json where
  "task_json_A = JObj [(''id'', JStr ''A''), (''nextTaskIds'', JArr [JStr ''B''])]"

definition row_with_tasks :: project_row where
  "row_with_tasks = row_without_tasks\<lparr>tasks_data := JArr [task_json_A]\<rparr>"

definition row_with_object_tasks :: project_row where
  "row_with_object_tasks = row_without_tasks\<lparr>tasks_data := JObj [(''A'', task_json_A)]\<rparr>"

definition backend_p1 :: backend where
  "backend_p1 = \<lparr>auth_user = Some ''u2'', request_failure = None,
                 project_members_table =
                   [\<lparr>member_project_id = ''p1'', member_user_id = ''u1'', member_role = ''owner''\<rparr>,
                    \<lparr>member_project_id = ''p1'', member_user_id = ''u2'', member_role = ''editor''\<rparr>]\<rparr>"

section \<open>Properties of the helpers\<close>

lemma set_set_add_all: "set (set_add_all seen xs) = set seen \<union> set xs"
  by (induction xs arbitrary: seen) auto

lemma distinct_set_add_all: "distinct seen \<Longrightarrow> distinct (set_add_all seen xs)"
  by (induction xs arbitrary: seen) auto

lemma set_add_all_append: "set_add_all seen (xs @ ys) = set_add_all (set_add_all seen xs) ys"
  by (induction xs arbitrary: seen) auto

lemma set_add_all_distinct: "distinct (seen @ xs) \<Longrightarrow> set_add_all seen xs = seen @ xs"
  by (induction xs arbitrary: seen) auto

lemma array_from_set_distinct: "distinct xs \<Longrightarrow> array_from_set xs = xs"
  using set_add_all_distinct [of "[]" xs] by (simp add: array_from_set_def)

lemma distinct_array_from_set: "distinct (array_from_set xs)"
  by (simp add: array_from_set_def distinct_set_add_all)

lemma set_array_from_set: "set (array_from_set xs) = set xs"
  by (simp add: array_from_set_def set_set_add_all)

lemma array_from_set_member: "b \<in> set xs \<Longrightarrow> array_from_set (xs @ [b]) = array_from_set xs"
  by (simp add: array_from_set_def set_add_all_append set_set_add_all)

lemma array_from_set_again:
  "array_from_set (array_from_set (xs @ [b]) @ [b]) = array_from_set (xs @ [b])"
proof -
  let ?ys = "array_from_set (xs @ [b])"
  have "b \<in> set ?ys" by (simp add: set_array_from_set)
  then have "array_from_set (?ys @ [b]) = array_from_set ?ys"
    by (rule array_from_set_member)
  also have "\<dots> = ?ys"
    by (rule array_from_set_distinct) (rule distinct_array_from_set)
  finally show ?thesis .
qed

lemma num_or_zero: "num_or v 0 = v"
  by (simp add: num_or_def)

lemma find_task_id: "find_task tasks a = Some t \<Longrightarrow> task_id t = a"
  by (induction tasks) (auto simp: find_task_def split: if_splits)

lemma find_task_mem: "find_task tasks a = Some t \<Longrightarrow> t \<in> set tasks"
  by (induction tasks) (auto simp: find_task_def split: if_splits)

lemma find_task_None: "(find_task tasks a = None) = (\<forall>t \<in> set tasks. task_id t \<noteq> a)"
  by (induction tasks) (auto simp: find_task_def)

section \<open>Properties of the store\<close>

lemma find_task_setNodeConnections:
  "find_task (setNodeConnections a ids tasks) a =
     map_option (\<lambda>t. t\<lparr>nextTaskIds := Some ids\<rparr>) (find_task tasks a)"
  by (induction tasks) (auto simp: find_task_def setNodeConnections_def)

lemma setNodeConnections_twice:
  "setNodeConnections a ids (setNodeConnections a ids' tasks) = setNodeConnections a ids tasks"
  by (induction tasks) (auto simp: setNodeConnections_def)

lemma find_task_updateNodePosition:
  "find_task (updateNodePosition a pos tasks) a =
     map_option (\<lambda>t. t\<lparr>position := Some pos\<rparr>) (find_task tasks a)"
  by (induction tasks) (auto simp: find_task_def updateNodePosition_def)

lemma add_edge_idem: "add_edge a b (add_edge a b tasks) = add_edge a b tasks"
proof (cases "find_task tasks a")
  case None
  then show ?thesis by (simp add: add_edge_def)
next
  case (Some src)
  then show ?thesis
    by (simp add: add_edge_def find_task_setNodeConnections next_ids_def
        array_from_set_again setNodeConnections_twice)
qed

section \<open>The connect gesture\<close>

lemma canEdit_connectingState: "canEdit (st\<lparr>connectingState := c\<rparr>) = canEdit st"
  by (simp add: canEdit_def)

lemma end_not_canEdit: "\<not> canEdit st \<Longrightarrow> handleEndConnection tasks st b = (st, [])"
  by (simp add: handleEndConnection_def)

lemma end_none:
  "canEdit st \<Longrightarrow> connectingState st = None \<Longrightarrow>
   handleEndConnection tasks st b = (st\<lparr>connectingState := None\<rparr>, [])"
  by (simp add: handleEndConnection_def)

lemma end_self:
  "canEdit st \<Longrightarrow> connectingState st = Some cs \<Longrightarrow> fromId cs = b \<Longrightarrow>
   handleEndConnection tasks st b = (st\<lparr>connectingState := None\<rparr>, [])"
  by (simp add: handleEndConnection_def)

lemma end_other:
  "canEdit st \<Longrightarrow> connectingState st = Some cs \<Longrightarrow> fromId cs \<noteq> b \<Longrightarrow>
   fst (handleEndConnection tasks st b) = st\<lparr>connectingState := None\<rparr> \<and>
   commit_all (snd (handleEndConnection tasks st b)) tasks = add_edge (fromId cs) b tasks"
  by (auto simp: handleEndConnection_def add_edge_def split: option.splits dest: find_task_id)

lemma end_found:
  "canEdit st \<Longrightarrow> connectingState st = Some cs \<Longrightarrow> fromId cs \<noteq> b \<Longrightarrow>
   find_task tasks (fromId cs) = Some src \<Longrightarrow>
   handleEndConnection tasks st b =
     (st\<lparr>connectingState := None\<rparr>,
      [OnUpdateTaskConnections (fromId cs) (array_from_set (next_ids src @ [b]))])"
  by (auto simp: handleEndConnection_def dest: find_task_id)

lemma connect_proj:
  "tasks' = commit_all (snd (handleStartConnection d st a ev)) tasks \<Longrightarrow>
   connect d ev a b (tasks, st) =
     (commit_all (snd (handleEndConnection tasks' (fst (handleStartConnection d st a ev)) b)) tasks',
      fst (handleEndConnection tasks' (fst (handleStartConnection d st a ev)) b))"
  by (simp add: connect_def case_prod_beta)

lemma connect_not_canEdit: "\<not> canEdit st \<Longrightarrow> connect d ev a b (tasks, st) = (tasks, st)"
  by (simp add: connect_def handleStartConnection_def handleEndConnection_def)

lemma connect_mounted:
  assumes "canEdit st" "flowContainerRef d = Some c"
  shows "fst (connect d ev a b (tasks, st)) = (if a = b then tasks else add_edge a b tasks)"
    and "canEdit (snd (connect d ev a b (tasks, st)))"
proof -
  let ?cs = "\<lparr>fromId = a,
              fromPos = \<lparr>p_x = clientX ev - rect_left c + scrollLeft c,
                         p_y = clientY ev - rect_top c + scrollTop c\<rparr>\<rparr>"
  let ?st1 = "st\<lparr>connectingState := Some ?cs\<rparr>"
  have s: "handleStartConnection d st a ev = (?st1, [])"
    using assms by (simp add: handleStartConnection_def)
  have c1: "canEdit ?st1" using assms by (simp add: canEdit_connectingState)
  have cs: "connectingState ?st1 = Some ?cs" by simp
  show "fst (connect d ev a b (tasks, st)) = (if a = b then tasks else add_edge a b tasks)"
  proof (cases "a = b")
    case True
    then show ?thesis using end_self [OF c1 cs, of b tasks] s by (simp add: connect_proj)
  next
    case False
    then show ?thesis using end_other [OF c1 cs, of b tasks] s by (simp add: connect_proj)
  qed
  show "canEdit (snd (connect d ev a b (tasks, st)))"
  proof (cases "a = b")
    case True
    then show ?thesis using end_self [OF c1 cs, of b tasks] s assms
      by (simp add: connect_proj canEdit_connectingState)
  next
    case False
    then show ?thesis using end_other [OF c1 cs, of b tasks] s assms
      by (simp add: connect_proj canEdit_connectingState)
  qed
qed

lemma connect_unmounted:
  assumes "canEdit st" "flowContainerRef d = None"
  shows "connectingState (snd (connect d ev a b (tasks, st))) = None"
    and "canEdit (snd (connect d ev a b (tasks, st)))"
proof -
  have s: "handleStartConnection d st a ev = (st, [])"
    using assms by (simp add: handleStartConnection_def)
  have "snd (connect d ev a b (tasks, st)) = st\<lparr>connectingState := None\<rparr>"
    using s assms(1)
    by (simp add: connect_proj handleEndConnection_def split: option.splits)
  then show "connectingState (snd (connect d ev a b (tasks, st))) = None"
    and "canEdit (snd (connect d ev a b (tasks, st)))"
    using assms(1) by (simp_all add: canEdit_connectingState)
qed

lemma connect_unmounted_none:
  assumes "canEdit st" "flowContainerRef d = None" "connectingState st = None"
  shows "fst (connect d ev a b (tasks, st)) = tasks"
proof -
  have s: "handleStartConnection d st a ev = (st, [])"
    using assms by (simp add: handleStartConnection_def)
  show ?thesis using s end_none [OF assms(1) assms(3), of tasks b] by (simp add: connect_proj)
qed

lemma connect_idem:
  "fst (connect d ev2 a b (connect d ev1 a b (tasks, st))) = fst (connect d ev1 a b (tasks, st))"
proof (cases "canEdit st")
  case False
  then show ?thesis by (simp add: connect_not_canEdit)
next
  case True
  obtain tasks1 st1 where g1: "connect d ev1 a b (tasks, st) = (tasks1, st1)"
    by (cases "connect d ev1 a b (tasks, st)")
  show ?thesis
  proof (cases "flowContainerRef d")
    case None
    have "canEdit st1" "connectingState st1 = None"
      using connect_unmounted [OF True None, of ev1 a b tasks] g1 by simp_all
    then show ?thesis using connect_unmounted_none [OF _ None, of st1 ev2 a b tasks1] g1 by simp
  next
    case (Some c)
    have t1: "tasks1 = (if a = b then tasks else add_edge a b tasks)" and c1: "canEdit st1"
      using connect_mounted [OF True Some, of ev1 a b tasks] g1 by simp_all
    have "fst (connect d ev2 a b (tasks1, st1)) = (if a = b then tasks1 else add_edge a b tasks1)"
      using connect_mounted(1) [OF c1 Some] .
    then show ?thesis using t1 g1 by (simp add: add_edge_idem)
  qed
qed

lemmas scenario_defs =
  node_A_def node_B_def graph_AB_def graph_A_to_B_def card_380_280_def canvas_def
  surface_AB_def surface_B_unmounted_def origin_def idle_def connecting_from_def pointer_at_def

text \<open>
  C1, as the code has it. Performing the connect gesture from \<open>a\<close> to \<open>b\<close> a second
  time leaves the store, and so the edge set, as the first gesture left it. The repeat is
  not suppressed before the store is called: when \<open>b\<close> is already a target of the source
  node, \<open>handleEndConnection\<close> still calls \<open>onUpdateTaskConnections\<close>, with the
  source's target list without duplicates, which is the list itself when it has none.
\<close>

theorem connect_twice_same_edges:
  "fst (connect d ev2 a b (connect d ev1 a b (tasks, st))) = fst (connect d ev1 a b (tasks, st)) \<and>
   set (edges (fst (connect d ev2 a b (connect d ev1 a b (tasks, st))))) =
     set (edges (fst (connect d ev1 a b (tasks, st)))) \<and>
   (canEdit st \<and> connectingState st = Some cs \<and> fromId cs \<noteq> b \<and>
    find_task tasks (fromId cs) = Some src \<and> b \<in> set (next_ids src) \<longrightarrow>
      handleEndConnection tasks st b =
        (st\<lparr>connectingState := None\<rparr>,
         [OnUpdateTaskConnections (fromId cs) (array_from_set (next_ids src))]) \<and>
      set (array_from_set (next_ids src)) = set (next_ids src) \<and>
      (distinct (next_ids src) \<longrightarrow> array_from_set (next_ids src) = next_ids src))"
proof -
  have "fst (connect d ev2 a b (connect d ev1 a b (tasks, st))) = fst (connect d ev1 a b (tasks, st))"
    by (rule connect_idem)
  moreover have "canEdit st \<and> connectingState st = Some cs \<and> fromId cs \<noteq> b \<and>
    find_task tasks (fromId cs) = Some src \<and> b \<in> set (next_ids src) \<longrightarrow>
      handleEndConnection tasks st b =
        (st\<lparr>connectingState := None\<rparr>,
         [OnUpdateTaskConnections (fromId cs) (array_from_set (next_ids src))])"
    using end_found [of st cs b tasks src] by (auto simp: array_from_set_member)
  ultimately show ?thesis
    by (simp add: set_array_from_set array_from_set_distinct)
qed

theorem connect_twice_same_edges_witness:
  "canEdit (connecting_from ''editor'' ''A'') \<and>
   find_task graph_A_to_B ''A'' = Some (node_A\<lparr>nextTaskIds := Some [''B'']\<rparr>) \<and>
   fst (connect surface_AB (pointer_at 400 260) ''A'' ''B'' (graph_AB, idle ''editor'')) = graph_A_to_B \<and>
   fst (connect surface_AB (pointer_at 410 250) ''A'' ''B''
          (connect surface_AB (pointer_at 400 260) ''A'' ''B'' (graph_AB, idle ''editor''))) = graph_A_to_B \<and>
   handleEndConnection graph_A_to_B (connecting_from ''editor'' ''A'') ''B'' =
     (idle ''editor'', [OnUpdateTaskConnections ''A'' [''B'']])"
proof -
  have once: "fst (connect surface_AB (pointer_at 400 260) ''A'' ''B'' (graph_AB, idle ''editor'')) = graph_A_to_B"
    by (simp add: connect_def handleStartConnection_def handleEndConnection_def canEdit_def
        find_task_def next_ids_def array_from_set_def setNodeConnections_def scenario_defs)
  have hyp: "canEdit (connecting_from ''editor'' ''A'') \<and>
      connectingState (connecting_from ''editor'' ''A'') = Some \<lparr>fromId = ''A'', fromPos = origin\<rparr> \<and>
      fromId \<lparr>fromId = ''A'', fromPos = origin\<rparr> \<noteq> ''B'' \<and>
      find_task graph_A_to_B (fromId \<lparr>fromId = ''A'', fromPos = origin\<rparr>)
        = Some (node_A\<lparr>nextTaskIds := Some [''B'']\<rparr>) \<and>
      ''B'' \<in> set (next_ids (node_A\<lparr>nextTaskIds := Some [''B'']\<rparr>))"
    by (simp add: canEdit_def find_task_def next_ids_def scenario_defs)
  have arr: "array_from_set (next_ids (node_A\<lparr>nextTaskIds := Some [''B'']\<rparr>)) = [''B'']"
    by (simp add: next_ids_def array_from_set_def)
  have st: "(connecting_from ''editor'' ''A'')\<lparr>connectingState := None\<rparr> = idle ''editor''"
    by (simp add: scenario_defs)
  show ?thesis
    using connect_twice_same_edges [of surface_AB "pointer_at 410 250" "''A''" "''B''"
        "pointer_at 400 260" graph_AB "idle ''editor''"]
      connect_twice_same_edges [of surface_AB "pointer_at 410 250" "''A''" "''B''"
        "pointer_at 400 260" graph_A_to_B "connecting_from ''editor'' ''A''"
        "\<lparr>fromId = ''A'', fromPos = origin\<rparr>" "node_A\<lparr>nextTaskIds := Some [''B'']\<rparr>"]
      once hyp arr st
    by simp
qed

theorem connect_repeat_commits_counterexample:
  "snd (handleEndConnection graph_A_to_B (connecting_from ''editor'' ''A'') ''B'')
     = [OnUpdateTaskConnections ''A'' [''B'']] \<and>
   snd (handleEndConnection graph_A_to_B (connecting_from ''editor'' ''A'') ''B'') \<noteq> []"
  by (simp add: handleEndConnection_def canEdit_def find_task_def next_ids_def
      array_from_set_def scenario_defs)

text \<open>
  C2. Ending a connect gesture with no active ConnectingState, or on the node it started
  from, calls nothing on the store and leaves the task list as it is; the handler clears
  the ConnectingState (when editing is not permitted it returns at once and leaves the
  state as it found it, and no gesture can have been started). So a gesture from a node
  to itself on the rendered canvas leaves the graph unchanged, and a pointer-up on the
  canvas clears the ConnectingState and calls nothing. The handlers are total: no case
  raises an error.
\<close>

theorem end_connection_cancel:
  "((connectingState st = None \<or> map_option fromId (connectingState st) = Some target) \<longrightarrow>
      snd (handleEndConnection tasks st target) = [] \<and>
      commit_all (snd (handleEndConnection tasks st target)) tasks = tasks \<and>
      (canEdit st \<longrightarrow> fst (handleEndConnection tasks st target) = st\<lparr>connectingState := None\<rparr>) \<and>
      (\<not> canEdit st \<longrightarrow> fst (handleEndConnection tasks st target) = st) \<and>
      (canEdit st \<or> connectingState st = None \<longrightarrow>
         connectingState (fst (handleEndConnection tasks st target)) = None)) \<and>
   (\<not> canEdit st \<longrightarrow> handleStartConnection d st a ev = (st, [])) \<and>
   (flowContainerRef d \<noteq> None \<longrightarrow> connect d ev a a (tasks, st) = (tasks, snd (connect d ev a a (tasks, st)))) \<and>
   (flowContainerRef d \<noteq> None \<longrightarrow> edges (fst (connect d ev a a (tasks, st))) = edges tasks) \<and>
   handleMouseUp st = (st\<lparr>connectingState := None\<rparr>, []) \<and>
   commit_all (snd (handleMouseUp st)) tasks = tasks"
proof -
  have e: "(connectingState st = None \<or> map_option fromId (connectingState st) = Some target) \<longrightarrow>
      snd (handleEndConnection tasks st target) = [] \<and>
      commit_all (snd (handleEndConnection tasks st target)) tasks = tasks \<and>
      (canEdit st \<longrightarrow> fst (handleEndConnection tasks st target) = st\<lparr>connectingState := None\<rparr>) \<and>
      (\<not> canEdit st \<longrightarrow> fst (handleEndConnection tasks st target) = st) \<and>
      (canEdit st \<or> connectingState st = None \<longrightarrow>
         connectingState (fst (handleEndConnection tasks st target)) = None)"
    by (auto simp: handleEndConnection_def split: option.splits)
  have s: "\<not> canEdit st \<longrightarrow> handleStartConnection d st a ev = (st, [])"
    by (simp add: handleStartConnection_def)
  have c: "flowContainerRef d \<noteq> None \<longrightarrow> fst (connect d ev a a (tasks, st)) = tasks"
  proof (cases "canEdit st")
    case True
    then show ?thesis using connect_mounted(1) [of st d _ ev a a tasks] by auto
  next
    case False
    then show ?thesis by (simp add: connect_not_canEdit)
  qed
  have c': "flowContainerRef d \<noteq> None \<longrightarrow>
      connect d ev a a (tasks, st) = (tasks, snd (connect d ev a a (tasks, st)))"
    using c by (metis prod.collapse)
  have m: "handleMouseUp st = (st\<lparr>connectingState := None\<rparr>, [])"
    by (cases "connectingState st") (simp_all add: handleMouseUp_def)
  have m': "commit_all (snd (handleMouseUp st)) tasks = tasks"
    using m by simp
  from e s c c' m m' show ?thesis by simp
qed

theorem end_connection_cancel_witness:
  "handleEndConnection graph_AB (idle ''editor'') ''B'' = (idle ''editor'', []) \<and>
   handleEndConnection graph_AB (connecting_from ''editor'' ''A'') ''A'' = (idle ''editor'', []) \<and>
   handleStartConnection surface_AB (idle ''viewer'') ''A'' (pointer_at 400 260) = (idle ''viewer'', []) \<and>
   fst (connect surface_AB (pointer_at 400 260) ''A'' ''A'' (graph_AB, idle ''editor'')) = graph_AB \<and>
   handleMouseUp (connecting_from ''editor'' ''A'') = (idle ''editor'', [])"
proof -
  have h: "connectingState (idle ''editor'') = None"
    "map_option fromId (connectingState (connecting_from ''editor'' ''A'')) = Some ''A''"
    "canEdit (idle ''editor'')" "canEdit (connecting_from ''editor'' ''A'')"
    "\<not> canEdit (idle ''viewer'')" "flowContainerRef surface_AB \<noteq> None"
    "(idle ''editor'')\<lparr>connectingState := None\<rparr> = idle ''editor''"
    "(connecting_from ''editor'' ''A'')\<lparr>connectingState := None\<rparr> = idle ''editor''"
    by (simp_all add: canEdit_def scenario_defs)
  have a: "handleEndConnection graph_AB (idle ''editor'') ''B'' = (idle ''editor'', [])"
    using end_connection_cancel [of "idle ''editor''" "''B''" graph_AB surface_AB "''A''" "pointer_at 400 260"] h
    by (simp add: prod_eq_iff)
  have b: "handleEndConnection graph_AB (connecting_from ''editor'' ''A'') ''A'' = (idle ''editor'', []) \<and>
      fst (connect surface_AB (pointer_at 400 260) ''A'' ''A'' (graph_AB, idle ''editor'')) = graph_AB \<and>
      handleMouseUp (connecting_from ''editor'' ''A'') = (idle ''editor'', [])"
    using end_connection_cancel [of "connecting_from ''editor'' ''A''" "''A''" graph_AB surface_AB "''A''" "pointer_at 400 260"]
      end_connection_cancel [of "idle ''editor''" "''B''" graph_AB surface_AB "''A''" "pointer_at 400 260"] h
    by (simp add: prod_eq_iff)
  have c: "handleStartConnection surface_AB (idle ''viewer'') ''A'' (pointer_at 400 260) = (idle ''viewer'', [])"
    using end_connection_cancel [of "idle ''viewer''" "''B''" graph_AB surface_AB "''A''" "pointer_at 400 260"] h
    by simp
  from a b c show ?thesis by simp
qed

section \<open>The move gesture\<close>

lemma clamp_range:
  fixes v hi :: real
  assumes "0 \<le> hi"
  shows "0 \<le> max 0 (min v hi)" and "max 0 (min v hi) \<le> hi"
  using assms by simp_all

lemma clamp_inside:
  fixes v hi :: real
  shows "0 \<le> v \<Longrightarrow> v \<le> hi \<Longrightarrow> max 0 (min v hi) = v"
  by simp

lemma handleDrop_commits:
  assumes "canEdit st" "draggedTaskId st = Some i" "i \<noteq> []" "flowContainerRef d = Some c"
  shows "handleDrop d st ev =
           (st\<lparr>draggedTaskId := None\<rparr>,
            [PreventDefault, OnUpdateTaskPosition i (dropPosition d c st ev i),
             SetTimeoutCalculateConnectors 0])"
  using assms by (simp add: handleDrop_def)

text \<open>
  C3. A drop of the dragged node \<open>i\<close> on the mounted canvas commits exactly one
  position for \<open>i\<close>: on each axis the pointer position in the container minus the drag
  offset, clamped by \<open>max 0 (min v (scrollableExtent - nodeExtent))\<close>. The committed
  position is never negative and, the node fitting the scrollable extent so that the
  range is not empty, never beyond \<open>scrollableExtent - nodeExtent\<close>; it is the
  unclamped value when that lies in the range, and it is the position the store then
  holds for \<open>i\<close>.
\<close>

theorem drop_position_clamped:
  assumes "canEdit st" and "draggedTaskId st = Some i" and "i \<noteq> []"
    and "flowContainerRef d = Some c"
  shows "\<exists>pos.
     handleDrop d st ev =
       (st\<lparr>draggedTaskId := None\<rparr>,
        [PreventDefault, OnUpdateTaskPosition i pos, SetTimeoutCalculateConnectors 0]) \<and>
     p_x pos = max 0 (min (clientX ev - rect_left c - p_x (dragOffset st))
                          (scrollWidth c - cardWidth d i)) \<and>
     p_y pos = max 0 (min (clientY ev - rect_top c - p_y (dragOffset st))
                          (scrollHeight c - cardHeight d i)) \<and>
     0 \<le> p_x pos \<and> 0 \<le> p_y pos \<and>
     (cardWidth d i \<le> scrollWidth c \<longrightarrow> p_x pos \<le> scrollWidth c - cardWidth d i) \<and>
     (cardHeight d i \<le> scrollHeight c \<longrightarrow> p_y pos \<le> scrollHeight c - cardHeight d i) \<and>
     (0 \<le> clientX ev - rect_left c - p_x (dragOffset st) \<and>
      clientX ev - rect_left c - p_x (dragOffset st) \<le> scrollWidth c - cardWidth d i
        \<longrightarrow> p_x pos = clientX ev - rect_left c - p_x (dragOffset st)) \<and>
     (0 \<le> clientY ev - rect_top c - p_y (dragOffset st) \<and>
      clientY ev - rect_top c - p_y (dragOffset st) \<le> scrollHeight c - cardHeight d i
        \<longrightarrow> p_y pos = clientY ev - rect_top c - p_y (dragOffset st)) \<and>
     find_task (commit_all (snd (handleDrop d st ev)) tasks) i =
       map_option (\<lambda>t. t\<lparr>position := Some pos\<rparr>) (find_task tasks i)"
proof -
  let ?pos = "dropPosition d c st ev i"
  have h: "handleDrop d st ev =
       (st\<lparr>draggedTaskId := None\<rparr>,
        [PreventDefault, OnUpdateTaskPosition i ?pos, SetTimeoutCalculateConnectors 0])"
    using assms by (rule handleDrop_commits)
  have x: "p_x ?pos = max 0 (min (clientX ev - rect_left c - p_x (dragOffset st))
                          (scrollWidth c - cardWidth d i))"
    and y: "p_y ?pos = max 0 (min (clientY ev - rect_top c - p_y (dragOffset st))
                          (scrollHeight c - cardHeight d i))"
    by (simp_all add: dropPosition_def)
  have lo: "0 \<le> p_x ?pos \<and> 0 \<le> p_y ?pos"
    unfolding x y by simp
  have rx: "cardWidth d i \<le> scrollWidth c \<longrightarrow> p_x ?pos \<le> scrollWidth c - cardWidth d i"
    unfolding x using clamp_range(2) [of "scrollWidth c - cardWidth d i"] by simp
  have ry: "cardHeight d i \<le> scrollHeight c \<longrightarrow> p_y ?pos \<le> scrollHeight c - cardHeight d i"
    unfolding y using clamp_range(2) [of "scrollHeight c - cardHeight d i"] by simp
  have ix: "0 \<le> clientX ev - rect_left c - p_x (dragOffset st) \<and>
      clientX ev - rect_left c - p_x (dragOffset st) \<le> scrollWidth c - cardWidth d i
        \<longrightarrow> p_x ?pos = clientX ev - rect_left c - p_x (dragOffset st)"
    unfolding x using clamp_inside by blast
  have iy: "0 \<le> clientY ev - rect_top c - p_y (dragOffset st) \<and>
      clientY ev - rect_top c - p_y (dragOffset st) \<le> scrollHeight c - cardHeight d i
        \<longrightarrow> p_y ?pos = clientY ev - rect_top c - p_y (dragOffset st)"
    unfolding y using clamp_inside by blast
  have f: "find_task (commit_all (snd (handleDrop d st ev)) tasks) i =
       map_option (\<lambda>t. t\<lparr>position := Some ?pos\<rparr>) (find_task tasks i)"
    by (simp add: h find_task_updateNodePosition)
  from h x y lo rx ry ix iy f show ?thesis by blast
qed

theorem drop_position_clamped_witness:
  "handleDrop surface_AB
     ((idle ''editor'')\<lparr>draggedTaskId := Some ''A'', dragOffset := \<lparr>p_x = 10, p_y = 10\<rparr>\<rparr>)
     (pointer_at 5000 (- 50)) =
   ((idle ''editor'')\<lparr>dragOffset := \<lparr>p_x = 10, p_y = 10\<rparr>\<rparr>,
    [PreventDefault, OnUpdateTaskPosition ''A'' \<lparr>p_x = 852, p_y = 0\<rparr>,
     SetTimeoutCalculateConnectors 0]) \<and>
   cardWidth surface_AB ''A'' \<le> scrollWidth canvas \<and>
   cardHeight surface_AB ''A'' \<le> scrollHeight canvas \<and>
   scrollWidth canvas - cardWidth surface_AB ''A'' = 852"
proof -
  let ?st = "(idle ''editor'')\<lparr>draggedTaskId := Some ''A'', dragOffset := \<lparr>p_x = 10, p_y = 10\<rparr>\<rparr>"
  have w: "cardWidth surface_AB ''A'' = 380" and ht: "cardHeight surface_AB ''A'' = 280"
    by (simp_all add: cardWidth_def cardHeight_def cardElement_def num_or_def scenario_defs)
  have h1: "canEdit ?st" by (simp add: canEdit_def scenario_defs)
  have h2: "draggedTaskId ?st = Some ''A''" by simp
  have h3: "''A'' \<noteq> []" by simp
  have h4: "flowContainerRef surface_AB = Some canvas" by (simp add: scenario_defs)
  have h5: "cardWidth surface_AB ''A'' \<le> scrollWidth canvas"
    and h6: "cardHeight surface_AB ''A'' \<le> scrollHeight canvas"
    by (simp_all add: w ht canvas_def)
  obtain pos where p: "handleDrop surface_AB ?st (pointer_at 5000 (- 50)) =
       (?st\<lparr>draggedTaskId := None\<rparr>,
        [PreventDefault, OnUpdateTaskPosition ''A'' pos, SetTimeoutCalculateConnectors 0])"
    and px: "p_x pos = max 0 (min (clientX (pointer_at 5000 (- 50)) - rect_left canvas - p_x (dragOffset ?st))
                          (scrollWidth canvas - cardWidth surface_AB ''A''))"
    and py: "p_y pos = max 0 (min (clientY (pointer_at 5000 (- 50)) - rect_top canvas - p_y (dragOffset ?st))
                          (scrollHeight canvas - cardHeight surface_AB ''A''))"
    using drop_position_clamped [OF h1 h2 h3 h4, of "pointer_at 5000 (- 50)" "[]"] by blast
  have "p_x pos = 852" using px by (simp add: w canvas_def pointer_at_def)
  moreover have "p_y pos = 0" using py by (simp add: ht canvas_def pointer_at_def)
  ultimately have "pos = \<lparr>p_x = 852, p_y = 0\<rparr>" by simp
  moreover have "?st\<lparr>draggedTaskId := None\<rparr> =
      (idle ''editor'')\<lparr>dragOffset := \<lparr>p_x = 10, p_y = 10\<rparr>\<rparr>"
    by (simp add: scenario_defs)
  ultimately show ?thesis using p h5 h6 w by (simp add: canvas_def)
qed

section \<open>Permission gating\<close>

text \<open>
  C7. \<open>canEdit\<close> holds exactly for the roles owner, admin and editor, \<open>canManage\<close>
  exactly for owner and admin. Without \<open>canEdit\<close> each handler of the move, connect and
  delete-edge gestures returns with the component state as it was and with no call on
  the store or on the event; being total functions, none raises an error. The two
  pointer handlers of the canvas, which are not gated, never call the store.
\<close>

theorem canEdit_gates_gestures:
  "canEdit st = (userRole st \<in> {''owner'', ''admin'', ''editor''}) \<and>
   canManage st = (userRole st \<in> {''owner'', ''admin''}) \<and>
   (\<not> canEdit st \<longrightarrow>
      handleDragCardStart d tasks st ev i = (st, []) \<and>
      handleDragOver st = (st, []) \<and>
      handleDrop d st ev = (st, []) \<and>
      handleStartConnection d st i ev = (st, []) \<and>
      handleEndConnection tasks st j = (st, []) \<and>
      handleDeleteConnection tasks st i j = (st, [])) \<and>
   snd (handleMouseMove d st ev) = [] \<and>
   snd (handleMouseUp st) = []"
proof -
  have r: "canEdit st = (userRole st \<in> {''owner'', ''admin'', ''editor''}) \<and>
      canManage st = (userRole st \<in> {''owner'', ''admin''})"
    by (auto simp: canEdit_def canManage_def)
  have g: "\<not> canEdit st \<longrightarrow>
      handleDragCardStart d tasks st ev i = (st, []) \<and>
      handleDragOver st = (st, []) \<and>
      handleDrop d st ev = (st, []) \<and>
      handleStartConnection d st i ev = (st, []) \<and>
      handleEndConnection tasks st j = (st, []) \<and>
      handleDeleteConnection tasks st i j = (st, [])"
    by (simp add: handleDragCardStart_def handleDragOver_def handleDrop_def
        handleStartConnection_def handleEndConnection_def handleDeleteConnection_def)
  have m: "snd (handleMouseMove d st ev) = []"
    by (simp add: handleMouseMove_def split: option.splits)
  have u: "snd (handleMouseUp st) = []"
    by (simp add: handleMouseUp_def split: option.splits)
  from r g m u show ?thesis by blast
qed

theorem canEdit_gates_gestures_witness:
  "\<not> canEdit (idle ''viewer'') \<and> \<not> canManage (idle ''viewer'') \<and>
   canEdit (idle ''editor'') \<and> \<not> canManage (idle ''editor'') \<and>
   handleDrop surface_AB (idle ''viewer'') (pointer_at 5000 (- 50)) = (idle ''viewer'', []) \<and>
   handleEndConnection graph_AB (idle ''viewer'') ''B'' = (idle ''viewer'', []) \<and>
   handleDeleteConnection graph_A_to_B (idle ''viewer'') ''A'' ''B'' = (idle ''viewer'', [])"
proof -
  have r: "userRole (idle ''viewer'') = ''viewer''" "userRole (idle ''editor'') = ''editor''"
    by (simp_all add: scenario_defs)
  have v: "\<not> canEdit (idle ''viewer'') \<and> \<not> canManage (idle ''viewer'')"
    using canEdit_gates_gestures [of "idle ''viewer''"] r by simp
  have e: "canEdit (idle ''editor'') \<and> \<not> canManage (idle ''editor'')"
    using canEdit_gates_gestures [of "idle ''editor''"] r by simp
  have g: "handleDrop surface_AB (idle ''viewer'') (pointer_at 5000 (- 50)) = (idle ''viewer'', []) \<and>
      handleEndConnection graph_AB (idle ''viewer'') ''B'' = (idle ''viewer'', [])"
    using canEdit_gates_gestures [of "idle ''viewer''" surface_AB graph_AB "pointer_at 5000 (- 50)" "''A''" "''B''"] v
    by simp
  have k: "handleDeleteConnection graph_A_to_B (idle ''viewer'') ''A'' ''B'' = (idle ''viewer'', [])"
    using canEdit_gates_gestures [of "idle ''viewer''" surface_AB graph_A_to_B "pointer_at 5000 (- 50)" "''A''" "''B''"] v
    by simp
  from v e g k show ?thesis by simp
qed

section \<open>The delete-edge gesture\<close>

lemma filter_neq_removeAll: "filter (\<lambda>i. i \<noteq> t) xs = removeAll t xs"
  by (induction xs) auto

lemma in_edges: "((s, t) \<in> set (edges tasks)) = (\<exists>n \<in> set tasks. task_id n = s \<and> t \<in> set (next_ids n))"
  by (auto simp: edges_def)

lemma delete_found:
  "canEdit st \<Longrightarrow> find_task tasks s = Some src \<Longrightarrow>
   handleDeleteConnection tasks st s t =
     (st, [OnUpdateTaskConnections s (removeAll t (next_ids src))])"
  by (auto simp: handleDeleteConnection_def filter_neq_removeAll dest: find_task_id)

lemma disconnect_found:
  "canEdit st \<Longrightarrow> find_task tasks s = Some src \<Longrightarrow>
   fst (disconnect s t (tasks, st)) = setNodeConnections s (removeAll t (next_ids src)) tasks"
  by (simp add: disconnect_def delete_found)

lemma setNodeConnections_others:
  "filter (\<lambda>n. task_id n \<noteq> s) (setNodeConnections s ids tasks) = filter (\<lambda>n. task_id n \<noteq> s) tasks"
  by (induction tasks) (simp_all add: setNodeConnections_def)

lemma setNodeConnections_source:
  assumes "n \<in> set (setNodeConnections s ids tasks)" and "task_id n = s"
  shows "next_ids n = ids"
proof -
  from assms(1)
  have "n \<in> (\<lambda>t. if task_id t = s then t\<lparr>nextTaskIds := Some ids\<rparr> else t) ` set tasks"
    by (simp add: setNodeConnections_def)
  then obtain m where m: "n = (if task_id m = s then m\<lparr>nextTaskIds := Some ids\<rparr> else m)"
    by blast
  show ?thesis
  proof (cases "task_id m = s")
    case True
    then show ?thesis using m by (simp add: next_ids_def)
  next
    case False
    then show ?thesis using m assms(2) by simp
  qed
qed

text \<open>
  C6. When the source node exists and editing is permitted, \<open>disconnect(s,t)\<close> calls the
  store once, with the source's target list from which every occurrence of \<open>t\<close> is
  removed; the store then holds that list for \<open>s\<close>, every node with another id is as it
  was, and \<open>s->t\<close> is no edge any more. On the graph whose only edge is \<open>A->B\<close>,
  \<open>disconnect(A,B)\<close> leaves no edge, and the recomputed connector list is empty.
\<close>

theorem disconnect_removes_edge:
  "(canEdit st \<and> find_task tasks s = Some src \<longrightarrow>
      handleDeleteConnection tasks st s t =
        (st, [OnUpdateTaskConnections s (removeAll t (next_ids src))]) \<and>
      fst (disconnect s t (tasks, st)) =
        map (\<lambda>n. if task_id n = s then n\<lparr>nextTaskIds := Some (removeAll t (next_ids src))\<rparr> else n) tasks \<and>
      (\<forall>n \<in> set (fst (disconnect s t (tasks, st))).
         task_id n = s \<longrightarrow> next_ids n = removeAll t (next_ids src)) \<and>
      filter (\<lambda>n. task_id n \<noteq> s) (fst (disconnect s t (tasks, st))) =
        filter (\<lambda>n. task_id n \<noteq> s) tasks \<and>
      (s, t) \<notin> set (edges (fst (disconnect s t (tasks, st))))) \<and>
   edges graph_A_to_B = [(''A'', ''B'')] \<and>
   edges (fst (disconnect ''A'' ''B'' (graph_A_to_B, idle ''editor''))) = [] \<and>
   calculateConnectors surface_AB (fst (disconnect ''A'' ''B'' (graph_A_to_B, idle ''editor''))) = []"
proof -
  have general: "handleDeleteConnection tasks st s t =
        (st, [OnUpdateTaskConnections s (removeAll t (next_ids src))]) \<and>
      fst (disconnect s t (tasks, st)) =
        map (\<lambda>n. if task_id n = s then n\<lparr>nextTaskIds := Some (removeAll t (next_ids src))\<rparr> else n) tasks \<and>
      (\<forall>n \<in> set (fst (disconnect s t (tasks, st))).
         task_id n = s \<longrightarrow> next_ids n = removeAll t (next_ids src)) \<and>
      filter (\<lambda>n. task_id n \<noteq> s) (fst (disconnect s t (tasks, st))) =
        filter (\<lambda>n. task_id n \<noteq> s) tasks \<and>
      (s, t) \<notin> set (edges (fst (disconnect s t (tasks, st))))"
    if ce: "canEdit st" and f: "find_task tasks s = Some src"
  proof -
    have d: "fst (disconnect s t (tasks, st)) = setNodeConnections s (removeAll t (next_ids src)) tasks"
      using ce f by (rule disconnect_found)
    have src: "\<forall>n \<in> set (fst (disconnect s t (tasks, st))).
         task_id n = s \<longrightarrow> next_ids n = removeAll t (next_ids src)"
      unfolding d by (blast intro: setNodeConnections_source)
    have e: "(s, t) \<notin> set (edges (fst (disconnect s t (tasks, st))))"
      unfolding in_edges using src by fastforce
    have m: "fst (disconnect s t (tasks, st)) =
        map (\<lambda>n. if task_id n = s then n\<lparr>nextTaskIds := Some (removeAll t (next_ids src))\<rparr> else n) tasks"
      unfolding d by (simp add: setNodeConnections_def)
    have o: "filter (\<lambda>n. task_id n \<noteq> s) (fst (disconnect s t (tasks, st))) =
        filter (\<lambda>n. task_id n \<noteq> s) tasks"
      unfolding d by (rule setNodeConnections_others)
    from delete_found [OF ce f] m src o e show ?thesis by blast
  qed
  have e0: "edges graph_A_to_B = [(''A'', ''B'')]"
    by (simp add: edges_def next_ids_def scenario_defs)
  have g: "fst (disconnect ''A'' ''B'' (graph_A_to_B, idle ''editor'')) = graph_AB"
    by (simp add: disconnect_def handleDeleteConnection_def canEdit_def find_task_def
        next_ids_def setNodeConnections_def scenario_defs)
  have e1: "edges (fst (disconnect ''A'' ''B'' (graph_A_to_B, idle ''editor''))) = []"
    unfolding g by (simp add: edges_def next_ids_def scenario_defs)
  have c1: "calculateConnectors surface_AB
      (fst (disconnect ''A'' ''B'' (graph_A_to_B, idle ''editor''))) = []"
    unfolding g by (simp add: calculateConnectors_def source_connectors_def scenario_defs)
  from general e0 e1 c1 show ?thesis by blast
qed

theorem disconnect_removes_edge_witness:
  "canEdit (idle ''editor'') \<and>
   find_task graph_A_to_B ''A'' = Some (node_A\<lparr>nextTaskIds := Some [''B'']\<rparr>) \<and>
   handleDeleteConnection graph_A_to_B (idle ''editor'') ''A'' ''B'' =
     (idle ''editor'', [OnUpdateTaskConnections ''A'' []]) \<and>
   fst (disconnect ''A'' ''B'' (graph_A_to_B, idle ''editor'')) = graph_AB \<and>
   edges (fst (disconnect ''A'' ''B'' (graph_A_to_B, idle ''editor''))) = []"
proof -
  have h: "canEdit (idle ''editor'')"
    "find_task graph_A_to_B ''A'' = Some (node_A\<lparr>nextTaskIds := Some [''B'']\<rparr>)"
    by (simp_all add: canEdit_def find_task_def scenario_defs)
  have r: "removeAll ''B'' (next_ids (node_A\<lparr>nextTaskIds := Some [''B'']\<rparr>)) = []"
    by (simp add: next_ids_def)
  have m: "map (\<lambda>n. if task_id n = ''A''
                    then n\<lparr>nextTaskIds := Some (removeAll ''B''
                           (next_ids (node_A\<lparr>nextTaskIds := Some [''B'']\<rparr>)))\<rparr>
                    else n) graph_A_to_B = graph_AB"
    by (simp add: next_ids_def scenario_defs)
  note t = disconnect_removes_edge [of "idle ''editor''" graph_A_to_B "''A''"
        "node_A\<lparr>nextTaskIds := Some [''B'']\<rparr>" "''B''"]
  from t h have a: "handleDeleteConnection graph_A_to_B (idle ''editor'') ''A'' ''B'' =
        (idle ''editor'', [OnUpdateTaskConnections ''A''
           (removeAll ''B'' (next_ids (node_A\<lparr>nextTaskIds := Some [''B'']\<rparr>)))])"
    by blast
  from t h have b: "fst (disconnect ''A'' ''B'' (graph_A_to_B, idle ''editor'')) =
      map (\<lambda>n. if task_id n = ''A''
                    then n\<lparr>nextTaskIds := Some (removeAll ''B''
                           (next_ids (node_A\<lparr>nextTaskIds := Some [''B'']\<rparr>)))\<rparr>
                    else n) graph_A_to_B"
    by blast
  from t have c: "edges (fst (disconnect ''A'' ''B'' (graph_A_to_B, idle ''editor''))) = []"
    by blast
  from a have a': "handleDeleteConnection graph_A_to_B (idle ''editor'') ''A'' ''B'' =
     (idle ''editor'', [OnUpdateTaskConnections ''A'' []])"
    unfolding r .
  from b have b': "fst (disconnect ''A'' ''B'' (graph_A_to_B, idle ''editor'')) = graph_AB"
    unfolding m .
  from h a' b' c show ?thesis by blast
qed

section \<open>The geometry engine\<close>

lemma in_target_connector:
  "(c \<in> set (target_connector d tasks src sp t)) =
     (\<exists>tgt tc. find_task tasks t = Some tgt \<and> cardElement d t = Some tc \<and>
        c = \<lparr>conn_id = ''conn-'' @ task_id src @ ''-'' @ t,
             from_pt = sp,
             to_pt = \<lparr>p_x = position_x tgt, p_y = position_y tgt + rect_height tc / 2\<rparr>,
             sourceId = task_id src,
             targetId = t\<rparr>)"
  by (cases "find_task tasks t"; cases "cardElement d t") (auto simp: target_connector_def)

lemma in_source_connectors:
  "(c \<in> set (source_connectors d tasks src)) =
     (\<exists>sc. cardElement d (task_id src) = Some sc \<and>
        (\<exists>t \<in> set (next_ids src).
           c \<in> set (target_connector d tasks src
                      \<lparr>p_x = position_x src + rect_width sc,
                       p_y = position_y src + rect_height sc / 2\<rparr> t)))"
proof (cases "nextTaskIds src")
  case None
  then show ?thesis by (simp add: source_connectors_def next_ids_def)
next
  case ids: (Some ids)
  show ?thesis
  proof (cases "ids = []")
    case True
    then show ?thesis using ids by (simp add: source_connectors_def next_ids_def)
  next
    case False
    show ?thesis
    proof (cases "cardElement d (task_id src)")
      case None
      then show ?thesis using ids False by (simp add: source_connectors_def next_ids_def)
    next
      case (Some sc)
      then show ?thesis using ids False by (simp add: source_connectors_def next_ids_def)
    qed
  qed
qed

lemma in_calculateConnectors:
  "(c \<in> set (calculateConnectors d tasks)) =
     (flowContainerRef d \<noteq> None \<and> taskCardRefs d \<noteq> [] \<and>
      (\<exists>src \<in> set tasks. c \<in> set (source_connectors d tasks src)))"
  by (auto simp: calculateConnectors_def)

lemma connectors_for_nonempty:
  "(connectors_for cs s t \<noteq> []) = (\<exists>c \<in> set cs. sourceId c = s \<and> targetId c = t)"
  by (auto simp: connectors_for_def filter_empty_conv)

lemma find_task_Some_iff: "(\<exists>tgt. find_task tasks t = Some tgt) = (\<exists>n \<in> set tasks. task_id n = t)"
  using find_task_None [of tasks t] by (cases "find_task tasks t") auto

lemma measurable_mounted:
  assumes "rendered d" "measurable d s"
  shows "flowContainerRef d \<noteq> None \<and> taskCardRefs d \<noteq> []"
proof -
  obtain el where "map_of (taskCardRefs d) s = Some (Some el)"
    using assms(2) by (auto simp: measurable_def cardElement_def split: option.splits)
  then have m: "(s, Some el) \<in> set (taskCardRefs d)" by (rule map_of_SomeD)
  then have "\<not> list_all (\<lambda>kr. snd kr = None) (taskCardRefs d)"
    by (force simp: list_all_iff)
  with assms(1) m show ?thesis by (auto simp: rendered_def)
qed

lemma connector_exists_iff:
  "(\<exists>c \<in> set (calculateConnectors d tasks). sourceId c = s \<and> targetId c = t) =
     (flowContainerRef d \<noteq> None \<and> taskCardRefs d \<noteq> [] \<and>
      (\<exists>src \<in> set tasks. task_id src = s \<and> t \<in> set (next_ids src)) \<and>
      (\<exists>tgt \<in> set tasks. task_id tgt = t) \<and> measurable d s \<and> measurable d t)"
  (is "?L = ?R")
proof
  assume ?L
  then obtain c where c: "c \<in> set (calculateConnectors d tasks)" "sourceId c = s" "targetId c = t"
    by blast
  from c(1) obtain src where m: "flowContainerRef d \<noteq> None" "taskCardRefs d \<noteq> []"
    and src: "src \<in> set tasks" "c \<in> set (source_connectors d tasks src)"
    by (auto simp: in_calculateConnectors)
  from src(2) obtain sc t' where sc: "cardElement d (task_id src) = Some sc"
    and t': "t' \<in> set (next_ids src)"
    and ct: "c \<in> set (target_connector d tasks src
                      \<lparr>p_x = position_x src + rect_width sc,
                       p_y = position_y src + rect_height sc / 2\<rparr> t')"
    by (auto simp: in_source_connectors)
  from ct obtain tgt tc where tg: "find_task tasks t' = Some tgt" "cardElement d t' = Some tc"
    and ids: "sourceId c = task_id src" "targetId c = t'"
    by (auto simp: in_target_connector)
  have "task_id src = s" "t' = t" using ids c by simp_all
  moreover have "\<exists>n \<in> set tasks. task_id n = t'" using tg(1) find_task_Some_iff by blast
  ultimately show ?R
    using m src(1) sc t' tg by (auto simp: measurable_def)
next
  assume r: ?R
  then obtain src where src: "src \<in> set tasks" "task_id src = s" "t \<in> set (next_ids src)"
    by blast
  from r obtain sc tc where sc: "cardElement d s = Some sc" and tc: "cardElement d t = Some tc"
    by (auto simp: measurable_def)
  from r obtain tgt where tgt: "find_task tasks t = Some tgt"
    using find_task_Some_iff [of tasks t] by blast
  let ?c = "\<lparr>conn_id = ''conn-'' @ task_id src @ ''-'' @ t,
             from_pt = \<lparr>p_x = position_x src + rect_width sc,
                        p_y = position_y src + rect_height sc / 2\<rparr>,
             to_pt = \<lparr>p_x = position_x tgt, p_y = position_y tgt + rect_height tc / 2\<rparr>,
             sourceId = task_id src,
             targetId = t\<rparr>"
  have "?c \<in> set (target_connector d tasks src
                      \<lparr>p_x = position_x src + rect_width sc,
                       p_y = position_y src + rect_height sc / 2\<rparr> t)"
    using tgt tc by (simp add: in_target_connector)
  then have "?c \<in> set (source_connectors d tasks src)"
    using sc src(2,3) by (auto simp: in_source_connectors)
  then have "?c \<in> set (calculateConnectors d tasks)"
    using r src(1) by (auto simp: in_calculateConnectors)
  moreover have "sourceId ?c = s \<and> targetId ?c = t" using src(2) by simp
  ultimately show ?L by blast
qed

text \<open>
  C4. On a rendered surface (a card element exists only inside the mounted flow
  container) the recomputed list holds a connector from \<open>s\<close> to \<open>t\<close>
  exactly when some node with id \<open>s\<close> has \<open>t\<close> among its \<open>nextTaskIds\<close>, a node with
  id \<open>t\<close> exists, and both \<open>s\<close> and \<open>t\<close> are measurable. On any surface an edge with an
  unmeasurable end has no connector; the function is total, so nothing is raised, and the
  connectors of the other edges are as the equivalence gives them.
\<close>

theorem connector_iff_edge_measurable:
  "(rendered d \<longrightarrow>
      (connectors_for (calculateConnectors d tasks) s t \<noteq> []) =
        ((\<exists>src \<in> set tasks. task_id src = s \<and> t \<in> set (next_ids src)) \<and>
         (\<exists>tgt \<in> set tasks. task_id tgt = t) \<and> measurable d s \<and> measurable d t)) \<and>
   (\<not> measurable d s \<or> \<not> measurable d t \<longrightarrow>
      connectors_for (calculateConnectors d tasks) s t = [])"
proof -
  have a: "(connectors_for (calculateConnectors d tasks) s t \<noteq> []) =
        ((\<exists>src \<in> set tasks. task_id src = s \<and> t \<in> set (next_ids src)) \<and>
         (\<exists>tgt \<in> set tasks. task_id tgt = t) \<and> measurable d s \<and> measurable d t)"
    if "rendered d"
    using measurable_mounted [OF that, of s]
    unfolding connectors_for_nonempty connector_exists_iff by blast
  have b: "connectors_for (calculateConnectors d tasks) s t = []"
    if "\<not> measurable d s \<or> \<not> measurable d t"
    using that connectors_for_nonempty [of "calculateConnectors d tasks" s t]
    unfolding connector_exists_iff by blast
  from a b show ?thesis by blast
qed

theorem connector_iff_edge_measurable_witness:
  "rendered surface_AB \<and> measurable surface_AB ''A'' \<and> measurable surface_AB ''B'' \<and>
   connectors_for (calculateConnectors surface_AB graph_A_to_B) ''A'' ''B'' \<noteq> [] \<and>
   rendered surface_B_unmounted \<and> \<not> measurable surface_B_unmounted ''B'' \<and>
   connectors_for (calculateConnectors surface_B_unmounted graph_A_to_B) ''A'' ''B'' = []"
proof -
  have h: "rendered surface_AB" "measurable surface_AB ''A''" "measurable surface_AB ''B''"
    "rendered surface_B_unmounted" "\<not> measurable surface_B_unmounted ''B''"
    by (simp_all add: rendered_def measurable_def cardElement_def scenario_defs)
  have e: "(\<exists>src \<in> set graph_A_to_B. task_id src = ''A'' \<and> ''B'' \<in> set (next_ids src)) \<and>
      (\<exists>tgt \<in> set graph_A_to_B. task_id tgt = ''B'')"
    by (simp add: next_ids_def scenario_defs)
  show ?thesis
    using connector_iff_edge_measurable [of surface_AB graph_A_to_B "''A''" "''B''"]
      connector_iff_edge_measurable [of surface_B_unmounted graph_A_to_B "''A''" "''B''"] h e
    by simp
qed


lemma position_x_spec: "position_x t = p_x (spec_position t)"
  by (simp add: position_x_def spec_position_def num_or_zero split: option.splits)

lemma position_y_spec: "position_y t = p_y (spec_position t)"
  by (simp add: position_y_def spec_position_def num_or_zero split: option.splits)

text \<open>
  C5. Every connector of the recomputed list comes from a node with its source id that
  has the target id among its \<open>nextTaskIds\<close>; its \<open>from\<close> point is the source's
  position plus the source card's width on x, plus half its height on y, and its \<open>to\<close>
  point is the target's position plus half the target card's height on y, where the
  position of a node is \<open>{0,0}\<close> when unset.
\<close>

theorem connector_endpoints:
  "c \<in> set (calculateConnectors d tasks) \<longrightarrow>
     (\<exists>src \<in> set tasks. \<exists>tgt sc tc.
        task_id src = sourceId c \<and> targetId c \<in> set (next_ids src) \<and>
        find_task tasks (targetId c) = Some tgt \<and>
        cardElement d (sourceId c) = Some sc \<and> cardElement d (targetId c) = Some tc \<and>
        from_pt c = \<lparr>p_x = p_x (spec_position src) + rect_width sc,
                     p_y = p_y (spec_position src) + rect_height sc / 2\<rparr> \<and>
        to_pt c = \<lparr>p_x = p_x (spec_position tgt),
                   p_y = p_y (spec_position tgt) + rect_height tc / 2\<rparr>)"
proof
  assume "c \<in> set (calculateConnectors d tasks)"
  then obtain src where src: "src \<in> set tasks" "c \<in> set (source_connectors d tasks src)"
    by (auto simp: in_calculateConnectors)
  from src(2) obtain sc t where sc: "cardElement d (task_id src) = Some sc"
    and t: "t \<in> set (next_ids src)"
    and ct: "c \<in> set (target_connector d tasks src
                      \<lparr>p_x = position_x src + rect_width sc,
                       p_y = position_y src + rect_height sc / 2\<rparr> t)"
    by (auto simp: in_source_connectors)
  from ct obtain tgt tc where tg: "find_task tasks t = Some tgt" "cardElement d t = Some tc"
    and c: "c = \<lparr>conn_id = ''conn-'' @ task_id src @ ''-'' @ t,
             from_pt = \<lparr>p_x = position_x src + rect_width sc,
                        p_y = position_y src + rect_height sc / 2\<rparr>,
             to_pt = \<lparr>p_x = position_x tgt, p_y = position_y tgt + rect_height tc / 2\<rparr>,
             sourceId = task_id src,
             targetId = t\<rparr>"
    by (auto simp: in_target_connector)
  have "task_id src = sourceId c \<and> targetId c \<in> set (next_ids src) \<and>
        find_task tasks (targetId c) = Some tgt \<and>
        cardElement d (sourceId c) = Some sc \<and> cardElement d (targetId c) = Some tc \<and>
        from_pt c = \<lparr>p_x = p_x (spec_position src) + rect_width sc,
                     p_y = p_y (spec_position src) + rect_height sc / 2\<rparr> \<and>
        to_pt c = \<lparr>p_x = p_x (spec_position tgt),
                   p_y = p_y (spec_position tgt) + rect_height tc / 2\<rparr>"
    using sc t tg by (simp add: c position_x_spec position_y_spec)
  with src(1) show "\<exists>src \<in> set tasks. \<exists>tgt sc tc.
        task_id src = sourceId c \<and> targetId c \<in> set (next_ids src) \<and>
        find_task tasks (targetId c) = Some tgt \<and>
        cardElement d (sourceId c) = Some sc \<and> cardElement d (targetId c) = Some tc \<and>
        from_pt c = \<lparr>p_x = p_x (spec_position src) + rect_width sc,
                     p_y = p_y (spec_position src) + rect_height sc / 2\<rparr> \<and>
        to_pt c = \<lparr>p_x = p_x (spec_position tgt),
                   p_y = p_y (spec_position tgt) + rect_height tc / 2\<rparr>"
    by blast
qed

theorem connector_endpoints_witness:
  "calculateConnectors surface_AB graph_A_to_B =
     [\<lparr>conn_id = ''conn-A-B'', from_pt = \<lparr>p_x = 380, p_y = 140\<rparr>,
       to_pt = \<lparr>p_x = 500, p_y = 140\<rparr>, sourceId = ''A'', targetId = ''B''\<rparr>] \<and>
   find_task graph_A_to_B ''B'' = Some node_B \<and>
   cardElement surface_AB ''A'' = Some card_380_280 \<and>
   cardElement surface_AB ''B'' = Some card_380_280 \<and>
   \<lparr>p_x = 500, p_y = 140\<rparr> =
     \<lparr>p_x = p_x (spec_position node_B),
      p_y = p_y (spec_position node_B) + rect_height card_380_280 / 2\<rparr>"
proof -
  let ?c = "\<lparr>conn_id = ''conn-A-B'', from_pt = \<lparr>p_x = 380, p_y = 140\<rparr>,
       to_pt = \<lparr>p_x = 500, p_y = 140\<rparr>, sourceId = ''A'', targetId = ''B''\<rparr>"
  have v: "calculateConnectors surface_AB graph_A_to_B = [?c]"
    by (simp add: calculateConnectors_def source_connectors_def target_connector_def
        cardElement_def find_task_def position_x_def position_y_def num_or_def scenario_defs)
  then have m: "?c \<in> set (calculateConnectors surface_AB graph_A_to_B)"
    by simp
  obtain src tgt sc tc where
    f: "find_task graph_A_to_B (targetId ?c) = Some tgt"
    and a: "cardElement surface_AB (sourceId ?c) = Some sc"
    and b: "cardElement surface_AB (targetId ?c) = Some tc"
    and t: "to_pt ?c = \<lparr>p_x = p_x (spec_position tgt),
                   p_y = p_y (spec_position tgt) + rect_height tc / 2\<rparr>"
    using connector_endpoints [of ?c surface_AB graph_A_to_B] m by blast
  have f': "find_task graph_A_to_B ''B'' = Some node_B"
    by (simp add: find_task_def scenario_defs)
  have a': "cardElement surface_AB ''A'' = Some card_380_280"
    and b': "cardElement surface_AB ''B'' = Some card_380_280"
    by (simp_all add: cardElement_def scenario_defs)
  have "tgt = node_B" using f f' by simp
  moreover have "tc = card_380_280" using b b' by simp
  ultimately have "\<lparr>p_x = 500, p_y = 140\<rparr> =
     \<lparr>p_x = p_x (spec_position node_B),
      p_y = p_y (spec_position node_B) + rect_height card_380_280 / 2\<rparr>"
    using t by simp
  with v f' a' b' show ?thesis by blast
qed

section \<open>Collaboration sync\<close>

lemmas sync_defs =
  deliver_def delivered_to_def listener_matches_def subscribeToProjectUpdates_def
  onProjectUpdate_def member_insert_def invitation_insert_def project_update_def

lemma delivered_to_subscription:
  "delivered_to (subscribeToProjectUpdates pid f) c =
     (if change_schema c = ''public'' \<and> change_table c = ''projects'' \<and>
         map_of (change_row c) ''id'' = Some pid
      then [\<lparr>l_event = ''*'', l_schema = ''public'', l_table = ''projects'',
             l_filter = (''id'', pid), l_callback = f\<rparr>]
      else if change_schema c = ''public'' \<and> change_table c = ''project_members'' \<and>
         map_of (change_row c) ''project_id'' = Some pid
      then [\<lparr>l_event = ''*'', l_schema = ''public'', l_table = ''project_members'',
             l_filter = (''project_id'', pid), l_callback = f\<rparr>]
      else [])"
  by (auto simp: delivered_to_def listener_matches_def subscribeToProjectUpdates_def)

text \<open>
  C8, as the code has it. A change delivered through the project subscription reloads the
  page exactly when it is an UPDATE of the subscribed row of \<open>projects\<close>; the callback
  itself reloads exactly for table \<open>projects\<close> with event UPDATE. Any other change has
  no effect at all: no reload and no fetch. A change of \<open>project_members\<close> of the
  project reaches the same callback through the same channel, and a change of
  \<open>project_invitations\<close> reaches no listener.
\<close>

theorem reload_iff_project_update:
  "(WindowLocationReload \<in> set (onProjectUpdate c)) =
     (change_table c = ''projects'' \<and> eventType c = ''UPDATE'') \<and>
   (WindowLocationReload \<in> set (deliver (subscribeToProjectUpdates pid onProjectUpdate) c)) =
     (change_schema c = ''public'' \<and> change_table c = ''projects'' \<and>
      eventType c = ''UPDATE'' \<and> map_of (change_row c) ''id'' = Some pid) \<and>
   (change_table c \<noteq> ''projects'' \<or> eventType c \<noteq> ''UPDATE'' \<longrightarrow>
      deliver (subscribeToProjectUpdates pid onProjectUpdate) c = []) \<and>
   (change_schema c = ''public'' \<and> change_table c = ''project_members'' \<and>
    map_of (change_row c) ''project_id'' = Some pid \<longrightarrow>
      map l_table (delivered_to (subscribeToProjectUpdates pid onProjectUpdate) c)
        = [''project_members''] \<and>
      map (\<lambda>l. l_callback l c) (delivered_to (subscribeToProjectUpdates pid onProjectUpdate) c)
        = [onProjectUpdate c]) \<and>
   (change_table c = ''project_invitations'' \<longrightarrow>
      delivered_to (subscribeToProjectUpdates pid onProjectUpdate) c = []) \<and>
   channel_name (subscribeToProjectUpdates pid onProjectUpdate) = ''project-'' @ pid"
proof -
  have a: "(WindowLocationReload \<in> set (onProjectUpdate c)) =
     (change_table c = ''projects'' \<and> eventType c = ''UPDATE'')"
    by (simp add: onProjectUpdate_def)
  have b: "(WindowLocationReload \<in> set (deliver (subscribeToProjectUpdates pid onProjectUpdate) c)) =
     (change_schema c = ''public'' \<and> change_table c = ''projects'' \<and>
      eventType c = ''UPDATE'' \<and> map_of (change_row c) ''id'' = Some pid)"
    by (simp add: deliver_def delivered_to_subscription onProjectUpdate_def)
  have c: "change_table c \<noteq> ''projects'' \<or> eventType c \<noteq> ''UPDATE'' \<longrightarrow>
      deliver (subscribeToProjectUpdates pid onProjectUpdate) c = []"
    by (simp add: deliver_def delivered_to_subscription onProjectUpdate_def)
  have d: "change_schema c = ''public'' \<and> change_table c = ''project_members'' \<and>
    map_of (change_row c) ''project_id'' = Some pid \<longrightarrow>
      map l_table (delivered_to (subscribeToProjectUpdates pid onProjectUpdate) c)
        = [''project_members''] \<and>
      map (\<lambda>l. l_callback l c) (delivered_to (subscribeToProjectUpdates pid onProjectUpdate) c)
        = [onProjectUpdate c]"
    by (simp add: delivered_to_subscription)
  have e: "change_table c = ''project_invitations'' \<longrightarrow>
      delivered_to (subscribeToProjectUpdates pid onProjectUpdate) c = []"
    by (simp add: delivered_to_subscription)
  have f: "channel_name (subscribeToProjectUpdates pid onProjectUpdate) = ''project-'' @ pid"
    by (simp add: subscribeToProjectUpdates_def)
  from a b c d e f show ?thesis by blast
qed

theorem reload_iff_project_update_witness:
  "deliver (subscribeToProjectUpdates ''p1'' onProjectUpdate) project_update = [WindowLocationReload] \<and>
   deliver (subscribeToProjectUpdates ''p1'' onProjectUpdate) member_insert = [] \<and>
   map l_table (delivered_to (subscribeToProjectUpdates ''p1'' onProjectUpdate) member_insert)
     = [''project_members''] \<and>
   delivered_to (subscribeToProjectUpdates ''p1'' onProjectUpdate) invitation_insert = []"
proof -
  have p: "deliver (subscribeToProjectUpdates ''p1'' onProjectUpdate) project_update = [WindowLocationReload]"
    by (simp add: sync_defs)
  have h: "change_table member_insert \<noteq> ''projects''"
    "change_schema member_insert = ''public'' \<and> change_table member_insert = ''project_members'' \<and>
     map_of (change_row member_insert) ''project_id'' = Some ''p1''"
    "change_table invitation_insert = ''project_invitations''"
    by (simp_all add: member_insert_def invitation_insert_def)
  note m = reload_iff_project_update [of member_insert "''p1''"]
  note i = reload_iff_project_update [of invitation_insert "''p1''"]
  from m h have m1: "deliver (subscribeToProjectUpdates ''p1'' onProjectUpdate) member_insert = []"
    by blast
  from m h have m2: "map l_table (delivered_to (subscribeToProjectUpdates ''p1'' onProjectUpdate) member_insert)
     = [''project_members'']"
    by blast
  from i h have i1: "delivered_to (subscribeToProjectUpdates ''p1'' onProjectUpdate) invitation_insert = []"
    by blast
  from p m1 m2 i1 show ?thesis by blast
qed

theorem member_change_same_channel_no_refetch_counterexample:
  "map l_table (delivered_to (subscribeToProjectUpdates ''p1'' onProjectUpdate) member_insert)
     = [''project_members''] \<and>
   map l_table (listeners (subscribeToProjectUpdates ''p1'' onProjectUpdate))
     = [''projects'', ''project_members''] \<and>
   deliver (subscribeToProjectUpdates ''p1'' onProjectUpdate) member_insert = [] \<and>
   GetProjectMembers ''p1'' \<notin> set (deliver (subscribeToProjectUpdates ''p1'' onProjectUpdate) member_insert) \<and>
   delivered_to (subscribeToProjectUpdates ''p1'' onProjectUpdate) invitation_insert = [] \<and>
   loadData ''p1'' True = [GetProjectMembers ''p1'', GetProjectInvitations ''p1'']"
  by (simp add: sync_defs loadData_def)

section \<open>Persistence and role services\<close>

lemma js_or_empty_array:
  "js_or v (JArr []) \<noteq> JNull" "js_or v (JArr []) \<noteq> JUndefined"
  "\<not> truthy v \<Longrightarrow> js_or v (JArr []) = JArr []"
  "truthy v \<Longrightarrow> js_or v (JArr []) = v"
  "is_array (js_or v (JArr [])) = (is_array v \<or> \<not> truthy v)"
  by (cases v; simp add: js_or_def)+

lemma pd_tasks_project_of_row: "pd_tasks (project_of_row r role) = js_or (tasks_data r) (JArr [])"
  by (simp add: project_of_row_def)

lemma getProject_returns:
  "(getProject resp = Inr pd) = (\<exists>r. resp = Inr r \<and> pd = project_of_row r (first_role r))"
  by (cases resp) (auto simp: getProject_def)

lemma updateProject_returns:
  "(updateProject resp = Inr pd) = (\<exists>r. resp = Inr r \<and> pd = project_of_row r (first_role r))"
  by (cases resp) (auto simp: updateProject_def)

lemma createProject_returns:
  "(createProject user resp = Inr pd) =
     (\<exists>u r. user = Some u \<and> resp = Inr r \<and> pd = project_of_row r (Some ''owner''))"
  by (cases user; cases resp) (auto simp: createProject_def)

lemma getProjects_returns:
  "(getProjects resps = Inr pds) =
     (\<exists>rows. resps = Inr rows \<and> pds = map (\<lambda>r. project_of_row r (first_role r)) rows)"
  by (cases resps) (auto simp: getProjects_def)

text \<open>
  C9, as the code has it. Each of \<open>getProject\<close>, \<open>updateProject\<close>,
  \<open>createProject\<close> and \<open>getProjects\<close> returns records exactly on a response
  without error (and, for \<open>createProject\<close>, with a user), one record per row of the
  response. The \<open>tasks\<close> field of the record of a row is never null or undefined: it is
  the empty array when \<open>tasks_data\<close> is null, absent or another falsy value, and the
  stored value itself otherwise. So it is an array exactly when the column holds an array
  or a falsy value; a stored value that is truthy and no array is returned as it is.
\<close>

theorem tasks_field_substituted:
  "(getProject resp = Inr pd) = (\<exists>r. resp = Inr r \<and> pd = project_of_row r (first_role r)) \<and>
   (updateProject resp = Inr pd) = (\<exists>r. resp = Inr r \<and> pd = project_of_row r (first_role r)) \<and>
   (createProject user resp = Inr pd) =
     (\<exists>u r. user = Some u \<and> resp = Inr r \<and> pd = project_of_row r (Some ''owner'')) \<and>
   (getProjects resps = Inr pds) =
     (\<exists>rows. resps = Inr rows \<and> pds = map (\<lambda>r. project_of_row r (first_role r)) rows) \<and>
   pd_tasks (project_of_row row role) \<noteq> JNull \<and>
   pd_tasks (project_of_row row role) \<noteq> JUndefined \<and>
   (tasks_data row = JNull \<or> tasks_data row = JUndefined \<longrightarrow>
      pd_tasks (project_of_row row role) = JArr []) \<and>
   (\<not> truthy (tasks_data row) \<longrightarrow> pd_tasks (project_of_row row role) = JArr []) \<and>
   (truthy (tasks_data row) \<longrightarrow> pd_tasks (project_of_row row role) = tasks_data row) \<and>
   is_array (pd_tasks (project_of_row row role)) =
     (is_array (tasks_data row) \<or> \<not> truthy (tasks_data row))"
proof -
  have n: "tasks_data row = JNull \<or> tasks_data row = JUndefined \<longrightarrow>
      pd_tasks (project_of_row row role) = JArr []"
    using js_or_empty_array(3) [of "tasks_data row"]
    by (auto simp: pd_tasks_project_of_row)
  have t: "pd_tasks (project_of_row row role) \<noteq> JNull \<and>
      pd_tasks (project_of_row row role) \<noteq> JUndefined \<and>
      (\<not> truthy (tasks_data row) \<longrightarrow> pd_tasks (project_of_row row role) = JArr []) \<and>
      (truthy (tasks_data row) \<longrightarrow> pd_tasks (project_of_row row role) = tasks_data row) \<and>
      is_array (pd_tasks (project_of_row row role)) =
        (is_array (tasks_data row) \<or> \<not> truthy (tasks_data row))"
    unfolding pd_tasks_project_of_row
    using js_or_empty_array [of "tasks_data row"] by blast
  from getProject_returns [of resp pd] updateProject_returns [of resp pd]
    createProject_returns [of user resp pd] getProjects_returns [of resps pds] n t
  show ?thesis by blast
qed

theorem tasks_field_substituted_witness:
  "getProject (Inr row_without_tasks) = Inr (project_of_row row_without_tasks (Some ''owner'')) \<and>
   updateProject (Inr row_with_tasks) = Inr (project_of_row row_with_tasks (Some ''owner'')) \<and>
   createProject (Some ''u1'') (Inr row_with_tasks) = Inr (project_of_row row_with_tasks (Some ''owner'')) \<and>
   getProjects (Inr [row_without_tasks, row_with_tasks]) =
     Inr [project_of_row row_without_tasks (Some ''owner''),
          project_of_row row_with_tasks (Some ''owner'')] \<and>
   tasks_data row_without_tasks = JNull \<and>
   pd_tasks (project_of_row row_without_tasks (Some ''owner'')) = JArr [] \<and>
   truthy (tasks_data row_with_tasks) \<and>
   pd_tasks (project_of_row row_with_tasks (Some ''owner'')) = JArr [task_json_A] \<and>
   is_array (pd_tasks (project_of_row row_with_tasks (Some ''owner'')))"
proof -
  let ?p0 = "project_of_row row_without_tasks (Some ''owner'')"
  let ?p1 = "project_of_row row_with_tasks (Some ''owner'')"
  have r: "first_role row_without_tasks = Some ''owner''" "first_role row_with_tasks = Some ''owner''"
    by (simp_all add: first_role_def row_without_tasks_def row_with_tasks_def)
  have d: "tasks_data row_without_tasks = JNull" "tasks_data row_with_tasks = JArr [task_json_A]"
    by (simp_all add: row_without_tasks_def row_with_tasks_def)
  have tr: "truthy (tasks_data row_with_tasks)" by (simp add: d)
  have m: "map (\<lambda>r. project_of_row r (first_role r)) [row_without_tasks, row_with_tasks] = [?p0, ?p1]"
    by (simp add: r)
  from tasks_field_substituted [of "Inr row_without_tasks" ?p0 None "Inr []" "[]" row_without_tasks "Some ''owner''"] r
  have a: "getProject (Inr row_without_tasks) = Inr ?p0" by simp
  from tasks_field_substituted [of "Inr row_with_tasks" ?p1 "Some ''u1''"
      "Inr [row_without_tasks, row_with_tasks]" "[?p0, ?p1]" row_with_tasks "Some ''owner''"] r m
  have b: "updateProject (Inr row_with_tasks) = Inr ?p1"
    and c: "createProject (Some ''u1'') (Inr row_with_tasks) = Inr ?p1"
    and e: "getProjects (Inr [row_without_tasks, row_with_tasks]) = Inr [?p0, ?p1]"
    by simp_all
  from tasks_field_substituted [of "Inr row_without_tasks" ?p0 None "Inr []" "[]" row_without_tasks "Some ''owner''"] d
  have f: "pd_tasks ?p0 = JArr []" by blast
  from tasks_field_substituted [of "Inr row_with_tasks" ?p1 None "Inr []" "[]" row_with_tasks "Some ''owner''"] tr
  have g: "pd_tasks ?p1 = tasks_data row_with_tasks" by blast
  then have g': "pd_tasks ?p1 = JArr [task_json_A]" and h: "is_array (pd_tasks ?p1)"
    by (simp_all add: d)
  from a b c e d(1) f tr g' h show ?thesis by blast
qed

theorem tasks_object_passed_through_counterexample:
  "getProject (Inr row_with_object_tasks) =
     Inr (project_of_row row_with_object_tasks (Some ''owner'')) \<and>
   pd_tasks (project_of_row row_with_object_tasks (Some ''owner'')) = JObj [(''A'', task_json_A)] \<and>
   \<not> is_array (pd_tasks (project_of_row row_with_object_tasks (Some ''owner'')))"
  by (simp add: getProject_def first_role_def project_of_row_def js_or_def
      row_with_object_tasks_def row_without_tasks_def)

lemma single_Nil: "single [] = Inl \<lparr>error_code = ''PGRST116'', error_message = ''not a single row''\<rparr>"
  by (simp add: single_def)

text \<open>
  C10. \<open>getUserRole\<close> always returns a value and never an error: null when no user is
  authenticated, null when the membership request answers with an error, as it does when
  the user has no membership row of the project, and otherwise the role of the row the
  request returned.
\<close>

theorem getUserRole_never_throws:
  "(\<exists>r. getUserRole b p = Inr r) \<and>
   (auth_user b = None \<longrightarrow> getUserRole b p = Inr None) \<and>
   (auth_user b = Some u \<and> select_member b p u = Inl e \<longrightarrow> getUserRole b p = Inr None) \<and>
   (auth_user b = Some u \<and> request_failure b = None \<and>
    filter (\<lambda>m. member_project_id m = p \<and> member_user_id m = u) (project_members_table b) = []
      \<longrightarrow> getUserRole b p = Inr None) \<and>
   (auth_user b = Some u \<and> select_member b p u = Inr m \<longrightarrow>
      getUserRole b p = Inr (Some (member_role m)))"
proof -
  have a: "\<exists>r. getUserRole b p = Inr r"
    by (simp add: getUserRole_def split: option.splits sum.splits)
  have n: "auth_user b = None \<longrightarrow> getUserRole b p = Inr None"
    by (simp add: getUserRole_def)
  have f: "auth_user b = Some u \<and> select_member b p u = Inl e \<longrightarrow> getUserRole b p = Inr None"
    by (simp add: getUserRole_def)
  have z: "auth_user b = Some u \<and> request_failure b = None \<and>
    filter (\<lambda>m. member_project_id m = p \<and> member_user_id m = u) (project_members_table b) = []
      \<longrightarrow> getUserRole b p = Inr None"
    by (simp add: getUserRole_def select_member_def single_Nil)
  have s: "auth_user b = Some u \<and> select_member b p u = Inr m \<longrightarrow>
      getUserRole b p = Inr (Some (member_role m))"
    by (simp add: getUserRole_def)
  from a n f z s show ?thesis by blast
qed

theorem getUserRole_never_throws_witness:
  "getUserRole (backend_p1\<lparr>auth_user := None\<rparr>) ''p1'' = Inr None \<and>
   getUserRole backend_p1 ''p2'' = Inr None \<and>
   getUserRole backend_p1 ''p1'' = Inr (Some ''editor'')"
proof -
  have h0: "auth_user (backend_p1\<lparr>auth_user := None\<rparr>) = None" by simp
  have h1: "auth_user backend_p1 = Some ''u2'' \<and> request_failure backend_p1 = None \<and>
      filter (\<lambda>m. member_project_id m = ''p2'' \<and> member_user_id m = ''u2'')
        (project_members_table backend_p1) = []"
    by (simp add: backend_p1_def)
  have h2: "auth_user backend_p1 = Some ''u2'' \<and>
      select_member backend_p1 ''p1'' ''u2'' =
        Inr \<lparr>member_project_id = ''p1'', member_user_id = ''u2'', member_role = ''editor''\<rparr>"
    by (simp add: select_member_def single_def backend_p1_def)
  from getUserRole_never_throws [of "backend_p1\<lparr>auth_user := None\<rparr>" "''p1''"] h0
  have a: "getUserRole (backend_p1\<lparr>auth_user := None\<rparr>) ''p1'' = Inr None" by blast
  from getUserRole_never_throws [of backend_p1 "''p2''" "''u2''"] h1
  have b: "getUserRole backend_p1 ''p2'' = Inr None" by blast
  from getUserRole_never_throws [of backend_p1 "''p1''" "''u2''" _
      "\<lparr>member_project_id = ''p1'', member_user_id = ''u2'', member_role = ''editor''\<rparr>"] h2
  have c: "getUserRole backend_p1 ''p1'' = Inr (Some ''editor'')" by simp
  from a b c show ?thesis by blast
qed

end
